theory Spec2Isabelle
  imports Complex_Main "HOL-Library.Sublist"
begin

section \<open>JavaScript values used by the wine inventory server\<close>

text \<open>
  Strings are lists of code units; the model covers the code units 0..255 (Latin-1), which
  is what the alias tables of the normalizer use. \<open>undefined\<close> is \<open>None\<close>. Numbers are
  JavaScript doubles in the source. The similarity score of the duplicate detection is
  computed as the source computes it, in binary64 arithmetic (next section). Request
  numbers, years and timestamps are integers; prices and ratings are rationals, and the
  one product in front of each \<open>Math.round\<close> of the price and rating normalizers is taken
  exactly.
\<close>

text \<open>What a \<open>catch\<close> clause receives: an object with the three properties read, or \<open>undefined\<close>.\<close>

datatype thrown =
  Error_object (code: "string option") (message: "string option") (status: "int option")
  | Undefined_value

definition type_error :: "string \<Rightarrow> thrown" where
  \<comment> \<open>the \<open>TypeError\<close> of a call \<open>v.m()\<close> on a value \<open>v\<close> that has no method \<open>m\<close>\<close>
  "type_error callee = Error_object None (Some (callee @ '' is not a function'')) None"

text \<open>
  A value found where the interface \<open>WineApiSearchResult\<close> declares a string: a string, or
  an object that a lookup \<open>TABLE[key]\<close> in an object literal finds on
  \<open>Object.prototype\<close> when \<open>key\<close> is the name of an inherited property (a built-in function,
  or, for \<open>__proto__\<close>, the prototype object itself). \<open>Inherited key\<close> is the object found
  under \<open>key\<close>.
\<close>

datatype text_value = Text string | Inherited string

definition inherited_properties :: "string list" where
  \<comment> \<open>the property names of \<open>Object.prototype\<close>\<close>
  "inherited_properties =
     [''constructor'', ''__defineGetter__'', ''__defineSetter__'', ''hasOwnProperty'',
      ''__lookupGetter__'', ''__lookupSetter__'', ''isPrototypeOf'', ''propertyIsEnumerable'',
      ''toString'', ''valueOf'', ''__proto__'', ''toLocaleString'']"

fun truthy :: "text_value \<Rightarrow> bool" where
  "truthy (Text s) = (s \<noteq> [])"
| "truthy (Inherited key) = True"

fun to_string :: "text_value \<Rightarrow> string" where
  \<comment> \<open>the conversion \<open>Array.prototype.join\<close> applies to an element\<close>
  "to_string (Text s) = s"
| "to_string (Inherited key) =
     (if key = ''__proto__'' then ''[object Object]''
      else ''function '' @ (if key = ''constructor'' then ''Object'' else key) @
           ''() { [native code] }'')"

fun map_throwing :: "('a \<Rightarrow> thrown + 'b) \<Rightarrow> 'a list \<Rightarrow> thrown + 'b list" where
  \<comment> \<open>\<open>array.map(f)\<close> for a callback that can throw: the first throw ends the call\<close>
  "map_throwing f [] = Inr []"
| "map_throwing f (x # xs) =
     (case f x of
        Inl error \<Rightarrow> Inl error
      | Inr y \<Rightarrow> (case map_throwing f xs of Inl error \<Rightarrow> Inl error | Inr ys \<Rightarrow> Inr (y # ys)))"

definition js_space :: "char \<Rightarrow> bool" where
  \<comment> \<open>the code units below 256 that \<open>String.prototype.trim\<close> and the regex class \<open>\s\<close> treat as white space\<close>
  "js_space c = (of_char c \<in> {9, 10, 11, 12, 13, 32, 160 :: nat})"

definition trim :: "string \<Rightarrow> string" where
  "trim s = rev (dropWhile js_space (rev (dropWhile js_space s)))"

definition lower_char :: "char \<Rightarrow> char" where
  "lower_char c =
     (let n = (of_char c :: nat)
      in if (65 \<le> n \<and> n \<le> 90) \<or> (192 \<le> n \<and> n \<le> 222 \<and> n \<noteq> 215)
         then char_of (n + 32) else c)"

definition toLowerCase :: "string \<Rightarrow> string" where
  "toLowerCase s = map lower_char s"

definition Math_round :: "rat \<Rightarrow> int" where
  \<comment> \<open>\<open>Math.round\<close> rounds to the nearest integer, a tie going up\<close>
  "Math_round x = \<lfloor>x + 1 / 2\<rfloor>"

section \<open>Binary64 arithmetic\<close>

text \<open>
  A finite double is represented by the rational number it denotes. An arithmetic
  operation of the source is the exact operation followed by rounding to the nearest
  double, a tie going to the double with the even significand (a significand of 53
  bits; below 2 to the power -1022 the spacing stays 2 to the power -1074). A decimal literal is the double nearest to it.
  Overflow to \<open>Infinity\<close>, \<open>NaN\<close> and the sign of zero are not represented: the operands
  below are lengths, counts and scores, and no divisor is zero.
\<close>

definition pow2 :: "int \<Rightarrow> rat" where
  "pow2 e = (if 0 \<le> e then 2 ^ nat e else 1 / 2 ^ nat (- e))"

function bit_length :: "int \<Rightarrow> int" where
  \<comment> \<open>the number of binary digits of a positive integer\<close>
  "bit_length n = (if n \<le> 0 then 0 else bit_length (n div 2) + 1)"
  by pat_completeness auto
termination
  by (relation "measure nat") auto

declare bit_length.simps [simp del]

definition binary_exponent :: "rat \<Rightarrow> int" where
  \<comment> \<open>for \<open>x \<noteq> 0\<close>, the \<open>e\<close> with \<open>pow2 e \<le> |x| < pow2 (e + 1)\<close>, found from the bit lengths of
      numerator and denominator\<close>
  "binary_exponent x =
     (case quotient_of \<bar>x\<bar> of
        (p, q) \<Rightarrow>
          let e = bit_length p - bit_length q
          in if pow2 e \<le> \<bar>x\<bar> then e else e - 1)"

definition round_half_even :: "rat \<Rightarrow> int" where
  "round_half_even y =
     (let f = \<lfloor>y\<rfloor>; d = y - of_int f
      in if d < 1 / 2 then f
         else if 1 / 2 < d then f + 1
         else if even f then f else f + 1)"

definition round_to_double :: "rat \<Rightarrow> rat" where
  "round_to_double x =
     (if x = 0 then 0
      else
        let e = max (binary_exponent x) (- 1022);
            quantum = pow2 (e - 52)
        in of_int (round_half_even (x / quantum)) * quantum)"

definition double_add :: "rat \<Rightarrow> rat \<Rightarrow> rat" where
  "double_add x y = round_to_double (x + y)"

definition double_sub :: "rat \<Rightarrow> rat \<Rightarrow> rat" where
  "double_sub x y = round_to_double (x - y)"

definition double_mul :: "rat \<Rightarrow> rat \<Rightarrow> rat" where
  "double_mul x y = round_to_double (x * y)"

definition double_div :: "rat \<Rightarrow> rat \<Rightarrow> rat" where
  "double_div x y = round_to_double (x / y)"

section \<open>External search results (\<open>WineApiSearchResult\<close>)\<close>

record WineApiSearchResult =
  name :: string
  vineyard :: string
  region :: text_value
  color :: string
  grape_varieties :: "text_value list"
  vintage_year :: "int option"
  rating :: "rat option"
  description :: "string option"
  price :: "rat option"
  currency :: "string option"
  food_pairings :: "string list option"
  image_url :: "string option"
  source :: string

section \<open>\<open>WineDataNormalizer.stringSimilarity\<close>: Jaro-Winkler\<close>

text \<open>
  The inner \<open>for j\<close> loop of the matching phase: the first index \<open>j\<close> in \<open>[j, end)\<close> whose
  character of \<open>s2\<close> is still unmatched and equals \<open>c\<close>; \<open>None\<close> when the loop ends
  without a \<open>break\<close>.
\<close>

function find_match :: "char \<Rightarrow> string \<Rightarrow> bool list \<Rightarrow> nat \<Rightarrow> nat \<Rightarrow> nat option" where
  "find_match c s2 s2Matches j end =
     (if j < end
      then (if s2Matches ! j \<or> c \<noteq> s2 ! j then find_match c s2 s2Matches (j + 1) end
            else Some j)
      else None)"
  by pat_completeness auto
termination
  by (relation "measure (\<lambda>(c, s2, s2Matches, j, end). end - j)") auto

declare find_match.simps [simp del]

text \<open>
  The outer \<open>for i\<close> loop of the matching phase. The state is
  \<open>(s1Matches, s2Matches, matches)\<close>. \<open>Math.max(0, i - matchWindow)\<close> is the truncating
  subtraction on \<open>nat\<close>.
\<close>

function find_matches ::
  "string \<Rightarrow> string \<Rightarrow> nat \<Rightarrow> nat \<Rightarrow> bool list \<times> bool list \<times> nat \<Rightarrow> bool list \<times> bool list \<times> nat"
where
  "find_matches s1 s2 matchWindow i (s1Matches, s2Matches, matches) =
     (if i < length s1
      then (case find_match (s1 ! i) s2 s2Matches (i - matchWindow)
                   (min (i + matchWindow + 1) (length s2)) of
              None \<Rightarrow> find_matches s1 s2 matchWindow (i + 1) (s1Matches, s2Matches, matches)
            | Some j \<Rightarrow>
                find_matches s1 s2 matchWindow (i + 1)
                  (s1Matches[i := True], s2Matches[j := True], matches + 1))
      else (s1Matches, s2Matches, matches))"
  by pat_completeness auto
termination
  by (relation "measure (\<lambda>(s1, s2, matchWindow, i, st). length s1 - i)") auto

declare find_matches.simps [simp del]

text \<open>
  \<open>while (!s2Matches[k]) k++\<close>. Reading past the end of the array gives \<open>undefined\<close>,
  which is falsy, so the source loop has no exit there: the model does not return
  (\<open>None\<close>) when no matched position is left at or after \<open>k\<close>.
\<close>

partial_function (option) skip_unmatched :: "bool list \<Rightarrow> nat \<Rightarrow> nat option" where
  "skip_unmatched s2Matches k =
     (if k < length s2Matches \<and> s2Matches ! k then Some k
      else skip_unmatched s2Matches (k + 1))"

declare skip_unmatched.simps [code]

text \<open>The transposition loop; \<open>None\<close> when the inner \<open>while\<close> does not return.\<close>

function count_transpositions ::
  "string \<Rightarrow> string \<Rightarrow> bool list \<Rightarrow> bool list \<Rightarrow> nat \<Rightarrow> nat \<Rightarrow> nat \<Rightarrow> nat option"
where
  "count_transpositions s1 s2 s1Matches s2Matches i k transpositions =
     (if i < length s1
      then (if \<not> s1Matches ! i
            then count_transpositions s1 s2 s1Matches s2Matches (i + 1) k transpositions
            else (case skip_unmatched s2Matches k of
                    None \<Rightarrow> None
                  | Some k' \<Rightarrow>
                      count_transpositions s1 s2 s1Matches s2Matches (i + 1) (k' + 1)
                        (if s1 ! i \<noteq> s2 ! k' then transpositions + 1 else transpositions)))
      else Some transpositions)"
  by pat_completeness auto
termination
  by (relation "measure (\<lambda>(s1, s2, s1Matches, s2Matches, i, k, t). length s1 - i)") auto

declare count_transpositions.simps [simp del]

text \<open>The prefix loop: the length of the common prefix, at most 4.\<close>

function common_prefix :: "string \<Rightarrow> string \<Rightarrow> nat \<Rightarrow> nat \<Rightarrow> nat" where
  "common_prefix s1 s2 i pfx =
     (if i < min (min (length s1) (length s2)) 4
      then (if s1 ! i = s2 ! i then common_prefix s1 s2 (i + 1) (pfx + 1) else pfx)
      else pfx)"
  by pat_completeness auto
termination
  by (relation "measure (\<lambda>(s1, s2, i, pfx). 4 - i)") auto

declare common_prefix.simps [simp del]

definition jaro_winkler :: "nat \<Rightarrow> nat \<Rightarrow> nat \<Rightarrow> nat \<Rightarrow> nat \<Rightarrow> rat" where
  \<comment> \<open>the two closing formulas of \<open>stringSimilarity\<close>, operation by operation\<close>
  "jaro_winkler len1 len2 matches transpositions pfx =
     (let jaro =
            double_div
              (double_add
                 (double_add (double_div (of_nat matches) (of_nat len1))
                             (double_div (of_nat matches) (of_nat len2)))
                 (double_div (double_sub (of_nat matches) (double_div (of_nat transpositions) 2))
                             (of_nat matches)))
              3
      in double_add jaro
           (double_mul (double_mul (round_to_double (1 / 10)) (of_nat pfx)) (double_sub 1 jaro)))"

text \<open>
  \<open>stringSimilarity\<close>. An empty string is falsy, an object is not. A call of
  \<open>toLowerCase\<close> on an object that is not a string throws a \<open>TypeError\<close>. The result is
  \<open>None\<close> when the call does not return.
\<close>

definition stringSimilarity :: "text_value \<Rightarrow> text_value \<Rightarrow> (thrown + rat) option" where
  "stringSimilarity str1 str2 =
     (if \<not> truthy str1 \<or> \<not> truthy str2 then Some (Inr 0)
      else
        (case str1 of
           Inherited key1 \<Rightarrow> Some (Inl (type_error ''str1.toLowerCase''))
         | Text text1 \<Rightarrow>
             (case str2 of
                Inherited key2 \<Rightarrow> Some (Inl (type_error ''str2.toLowerCase''))
              | Text text2 \<Rightarrow>
                  let s1 = trim (toLowerCase text1); s2 = trim (toLowerCase text2)
                  in if s1 = s2 then Some (Inr 1)
                     else
                       let len1 = length s1; len2 = length s2
                       in if len1 = 0 \<or> len2 = 0 then Some (Inr 0)
                          else
                            let matchWindow = int (max len1 len2 div 2) - 1
                            in if matchWindow < 0 then Some (Inr 0)
                               else
                                 (case find_matches s1 s2 (nat matchWindow) 0
                                         (replicate len1 False, replicate len2 False, 0) of
                                    (s1Matches, s2Matches, matches) \<Rightarrow>
                                      if matches = 0 then Some (Inr 0)
                                      else
                                        (case count_transpositions s1 s2 s1Matches s2Matches 0 0 0 of
                                           None \<Rightarrow> None
                                         | Some transpositions \<Rightarrow>
                                             Some (Inr (jaro_winkler len1 len2 matches transpositions
                                                          (common_prefix s1 s2 0 0))))))))"

definition similarity :: "text_value \<Rightarrow> text_value \<Rightarrow> thrown + rat" where
  \<comment> \<open>the outcome of a call of \<open>stringSimilarity\<close>; every call returns or throws, see
      \<open>stringSimilarity_returns\<close>\<close>
  "similarity str1 str2 = the (stringSimilarity str1 str2)"

section \<open>The Jaro-Winkler similarity, as a reference for \<open>stringSimilarity\<close>\<close>

text \<open>
  The similarity as it is defined, not as the source computes it. Two characters match
  when they are equal and at most \<open>jaro_window\<close> positions apart; every character takes
  part in at most one match. The characters of the first string are assigned from left to
  right, each to the first character of the second string that matches it and is still
  free. \<open>jaro_matching\<close> is the list of the matched pairs of positions.
\<close>

definition jaro_window :: "string \<Rightarrow> string \<Rightarrow> nat" where
  "jaro_window s1 s2 = max (length s1) (length s2) div 2 - 1"

fun jaro_assign :: "nat \<Rightarrow> string \<Rightarrow> string \<Rightarrow> nat list \<Rightarrow> nat list \<Rightarrow> (nat \<times> nat) list" where
  "jaro_assign d s1 s2 [] taken = []"
| "jaro_assign d s1 s2 (i # later) taken =
     (case find (\<lambda>j. j \<notin> set taken \<and> s2 ! j = s1 ! i) [i - d ..< min (i + d + 1) (length s2)] of
        None \<Rightarrow> jaro_assign d s1 s2 later taken
      | Some j \<Rightarrow> (i, j) # jaro_assign d s1 s2 later (j # taken))"

definition jaro_matching :: "string \<Rightarrow> string \<Rightarrow> (nat \<times> nat) list" where
  "jaro_matching s1 s2 = jaro_assign (jaro_window s1 s2) s1 s2 [0..<length s1] []"

text \<open>
  The matched characters of each string, in the order of that string; the number of
  positions at which the two sequences differ (twice the number of transpositions); and
  the length of the common prefix, up to 4.
\<close>

definition matched_characters :: "string \<Rightarrow> nat set \<Rightarrow> string" where
  "matched_characters s positions = map (\<lambda>i. s ! i) (filter (\<lambda>i. i \<in> positions) [0..<length s])"

definition out_of_order :: "string \<Rightarrow> string \<Rightarrow> (nat \<times> nat) list \<Rightarrow> nat" where
  "out_of_order s1 s2 matching =
     length (filter (\<lambda>(a, b). a \<noteq> b)
               (zip (matched_characters s1 (fst ` set matching))
                    (matched_characters s2 (snd ` set matching))))"

definition winkler_prefix :: "string \<Rightarrow> string \<Rightarrow> nat" where
  "winkler_prefix s1 s2 = length (takeWhile (\<lambda>(a, b). a = b) (zip (take 4 s1) (take 4 s2)))"

text \<open>
  With \<open>m\<close> matches, \<open>t\<close> differing positions (\<open>t / 2\<close> transpositions) and the common prefix
  \<open>l\<close>, the Jaro similarity is \<open>(m / |s1| + m / |s2| + (m - t / 2) / m) / 3\<close>, or 0 when
  nothing matches, and the Jaro-Winkler similarity is \<open>jaro + 0.1 * l * (1 - jaro)\<close>. The
  two formulas are evaluated in binary64, from left to right.
\<close>

definition jaro_formula :: "nat \<Rightarrow> nat \<Rightarrow> nat \<Rightarrow> nat \<Rightarrow> rat" where
  "jaro_formula m t length1 length2 =
     double_div
       (double_add
          (double_add (double_div (of_nat m) (of_nat length1))
                      (double_div (of_nat m) (of_nat length2)))
          (double_div (double_sub (of_nat m) (double_div (of_nat t) 2)) (of_nat m)))
       3"

definition winkler_formula :: "rat \<Rightarrow> nat \<Rightarrow> rat" where
  "winkler_formula jaro l =
     double_add jaro (double_mul (double_mul (round_to_double (1 / 10)) (of_nat l)) (double_sub 1 jaro))"

definition jaro_winkler_reference :: "string \<Rightarrow> string \<Rightarrow> rat" where
  "jaro_winkler_reference s1 s2 =
     (let matching = jaro_matching s1 s2; m = length matching
      in if m = 0 then 0
         else winkler_formula
                (jaro_formula m (out_of_order s1 s2 matching) (length s1) (length s2))
                (winkler_prefix s1 s2))"

definition text_similarity :: "string \<Rightarrow> string \<Rightarrow> rat" where
  \<comment> \<open>the similarity of two texts: that of the texts in lower case without surrounding
      white space; 0 when a text is empty\<close>
  "text_similarity str1 str2 =
     (let s1 = trim (toLowerCase str1); s2 = trim (toLowerCase str2)
      in if str1 = [] \<or> str2 = [] then 0
         else if s1 = s2 then 1
         else if s1 = [] \<or> s2 = [] then 0
         else jaro_winkler_reference s1 s2)"

section \<open>Duplicate detection\<close>

text \<open>
  \<open>calculateSimilarity\<close>. The statements run in the order of the source; a throw of the
  third call of \<open>stringSimilarity\<close> ends the function. \<open>score\<close> and \<open>factors\<close> are doubles,
  \<open>0.4\<close>, \<open>0.3\<close>, \<open>0.2\<close>, \<open>0.1\<close> and \<open>0.8\<close> the doubles nearest to these decimals.
\<close>

definition calculateSimilarity :: "WineApiSearchResult \<Rightarrow> WineApiSearchResult \<Rightarrow> thrown + rat" where
  "calculateSimilarity wine1 wine2 =
     (let score = 0; factors = 0
      in (case similarity (Text (name wine1)) (Text (name wine2)) of
            Inl error \<Rightarrow> Inl error
          | Inr nameSimilarity \<Rightarrow>
              (let score = double_add score (double_mul nameSimilarity (round_to_double (4 / 10)));
                   factors = double_add factors (round_to_double (4 / 10))
               in (case similarity (Text (vineyard wine1)) (Text (vineyard wine2)) of
                     Inl error \<Rightarrow> Inl error
                   | Inr vineyardSimilarity \<Rightarrow>
                       (let score = double_add score
                                      (double_mul vineyardSimilarity (round_to_double (3 / 10)));
                            factors = double_add factors (round_to_double (3 / 10));
                            both = (case (vintage_year wine1, vintage_year wine2) of
                                      (Some y1, Some y2) \<Rightarrow> y1 \<noteq> 0 \<and> y2 \<noteq> 0
                                    | _ \<Rightarrow> False);
                            score = (if both
                                     then double_add score
                                            (double_mul
                                               (if vintage_year wine1 = vintage_year wine2
                                                then 1 else 0)
                                               (round_to_double (2 / 10)))
                                     else score);
                            factors = (if both
                                       then double_add factors (round_to_double (2 / 10))
                                       else factors)
                        in (case similarity (region wine1) (region wine2) of
                              Inl error \<Rightarrow> Inl error
                            | Inr regionSimilarity \<Rightarrow>
                                (let score = double_add score
                                               (double_mul regionSimilarity
                                                  (round_to_double (1 / 10)));
                                     factors = double_add factors (round_to_double (1 / 10))
                                 in Inr (if factors > 0 then double_div score factors
                                         else 0))))))))"

definition isDuplicate :: "WineApiSearchResult \<Rightarrow> WineApiSearchResult \<Rightarrow> thrown + bool" where
  "isDuplicate wine1 wine2 =
     (case calculateSimilarity wine1 wine2 of
        Inl error \<Rightarrow> Inl error
      | Inr similarity_score \<Rightarrow> Inr (similarity_score > round_to_double (8 / 10)))"

text \<open>
  \<open>unique.some(existing => isDuplicate(wine, existing))\<close>, and the \<open>for (const wine of wines)\<close>
  loop of \<open>removeDuplicates\<close> with its accumulator \<open>unique\<close>. A throw of \<open>isDuplicate\<close>
  ends both.
\<close>

fun some_duplicate :: "WineApiSearchResult \<Rightarrow> WineApiSearchResult list \<Rightarrow> thrown + bool" where
  "some_duplicate wine [] = Inr False"
| "some_duplicate wine (existing # rest) =
     (case isDuplicate wine existing of
        Inl error \<Rightarrow> Inl error
      | Inr duplicate \<Rightarrow> if duplicate then Inr True else some_duplicate wine rest)"

fun removeDuplicates_loop ::
  "WineApiSearchResult list \<Rightarrow> WineApiSearchResult list \<Rightarrow> thrown + WineApiSearchResult list"
where
  "removeDuplicates_loop unique [] = Inr unique"
| "removeDuplicates_loop unique (wine # wines) =
     (case some_duplicate wine unique of
        Inl error \<Rightarrow> Inl error
      | Inr isDupe \<Rightarrow>
          if \<not> isDupe then removeDuplicates_loop (unique @ [wine]) wines
          else removeDuplicates_loop unique wines)"

definition removeDuplicates :: "WineApiSearchResult list \<Rightarrow> thrown + WineApiSearchResult list" where
  "removeDuplicates wines = removeDuplicates_loop [] wines"

section \<open>String operations of the normalizer\<close>

definition js_includes :: "string \<Rightarrow> string \<Rightarrow> bool" where
  \<comment> \<open>\<open>s.includes(sub)\<close>\<close>
  "js_includes s sub = sublist sub s"

fun split_on :: "char \<Rightarrow> string \<Rightarrow> string list" where
  \<comment> \<open>\<open>s.split(sep)\<close> for a separator of one character\<close>
  "split_on sep [] = [[]]"
| "split_on sep (c # cs) =
     (if c = sep then [] # split_on sep cs
      else (case split_on sep cs of
              [] \<Rightarrow> [[c]]
            | part # parts \<Rightarrow> (c # part) # parts))"

fun join :: "string \<Rightarrow> string list \<Rightarrow> string" where
  "join sep [] = []"
| "join sep [part] = part"
| "join sep (part # parts) = part @ sep @ join sep parts"

fun collapse_runs :: "(char \<Rightarrow> bool) \<Rightarrow> string \<Rightarrow> string" where
  \<comment> \<open>\<open>s.replace(/C+/g, ' ')\<close> for a character class \<open>C\<close>: every maximal run becomes one space\<close>
  "collapse_runs C [] = []"
| "collapse_runs C [c] = (if C c then '' '' else [c])"
| "collapse_runs C (c # d # cs) =
     (if C c then (if C d then collapse_runs C (d # cs) else CHR '' '' # collapse_runs C (d # cs))
      else c # collapse_runs C (d # cs))"

definition replace_class :: "char list \<Rightarrow> char \<Rightarrow> string \<Rightarrow> string" where
  \<comment> \<open>\<open>s.replace(/[...]/g, r)\<close>\<close>
  "replace_class cls r s = map (\<lambda>c. if c \<in> set cls then r else c) s"

definition upper_char :: "char \<Rightarrow> string" where
  \<comment> \<open>\<open>c.toUpperCase()\<close>; the sharp s becomes two letters. The upper case of the code units
      181 and 255 lies above 255 and is outside the model: they are returned unchanged.\<close>
  "upper_char c =
     (let n = (of_char c :: nat)
      in if (97 \<le> n \<and> n \<le> 122) \<or> (224 \<le> n \<and> n \<le> 254 \<and> n \<noteq> 247)
         then [char_of (n - 32)]
         else if n = 223 then ''SS'' else [c])"

definition capitalize :: "string \<Rightarrow> string" where
  \<comment> \<open>\<open>part.charAt(0).toUpperCase() + part.slice(1).toLowerCase()\<close>\<close>
  "capitalize part = (case part of [] \<Rightarrow> [] | c # cs \<Rightarrow> upper_char c @ toLowerCase cs)"

definition word_char :: "char \<Rightarrow> bool" where
  \<comment> \<open>the regex class \<open>\w\<close>\<close>
  "word_char c =
     (let n = (of_char c :: nat)
      in (48 \<le> n \<and> n \<le> 57) \<or> (65 \<le> n \<and> n \<le> 90) \<or> n = 95 \<or> (97 \<le> n \<and> n \<le> 122))"

definition unique_first :: "'a list \<Rightarrow> 'a list" where
  \<comment> \<open>\<open>array.filter((v, index, array) => array.indexOf(v) === index)\<close>\<close>
  "unique_first array =
     map snd (filter (\<lambda>(index, v). v \<notin> set (take index array)) (zip [0..<length array] array))"

section \<open>The alias tables\<close>

definition a_circ :: char where "a_circ = CHR 0xE2"
definition e_grave :: char where "e_grave = CHR 0xE8"
definition e_acute :: char where "e_acute = CHR 0xE9"
definition n_tilde :: char where "n_tilde = CHR 0xF1"
definition u_uml :: char where "u_uml = CHR 0xFC"

definition REGION_MAPPING :: "(string \<times> string) list" where
  "REGION_MAPPING =
    [(''napa'', ''Napa Valley, California''),
     (''napa valley'', ''Napa Valley, California''),
     (''napa valley, ca'', ''Napa Valley, California''),
     (''napa, california'', ''Napa Valley, California''),
     (''sonoma'', ''Sonoma County, California''),
     (''sonoma county'', ''Sonoma County, California''),
     (''sonoma, ca'', ''Sonoma County, California''),
     (''bordeaux'', ''Bordeaux, France''),
     (''bordelais'', ''Bordeaux, France''),
     (''burgundy'', ''Burgundy, France''),
     (''bourgogne'', ''Burgundy, France''),
     (''champagne'', ''Champagne, France''),
     (''tuscany'', ''Tuscany, Italy''),
     (''toscana'', ''Tuscany, Italy''),
     (''chianti'', ''Chianti, Tuscany, Italy''),
     (''piedmont'', ''Piedmont, Italy''),
     (''piemonte'', ''Piedmont, Italy''),
     (''rioja'', ''Rioja, Spain''),
     (''la rioja'', ''Rioja, Spain''),
     (''mosel'', ''Mosel, Germany''),
     (''rheingau'', ''Rheingau, Germany''),
     (''pfalz'', ''Pfalz, Germany''),
     (''barossa'', ''Barossa Valley, Australia''),
     (''barossa valley'', ''Barossa Valley, Australia''),
     (''hunter valley'', ''Hunter Valley, Australia''),
     (''clare valley'', ''Clare Valley, Australia''),
     (''coonawarra'', ''Coonawarra, Australia''),
     (''maipo'', ''Maipo Valley, Chile''),
     (''maipo valley'', ''Maipo Valley, Chile''),
     (''colchagua'', ''Colchagua Valley, Chile''),
     (''casablanca'', ''Casablanca Valley, Chile''),
     (''mendoza'', ''Mendoza, Argentina''),
     (''salta'', ''Salta, Argentina''),
     (''stellenbosch'', ''Stellenbosch, South Africa''),
     (''paarl'', ''Paarl, South Africa''),
     (''okanagan'', ''Okanagan Valley, British Columbia''),
     (''okanagan valley'', ''Okanagan Valley, British Columbia''),
     (''niagara'', ''Niagara Peninsula, Ontario''),
     (''niagara peninsula'', ''Niagara Peninsula, Ontario'')]"

definition GRAPE_VARIETY_MAPPING :: "(string \<times> string) list" where
  "GRAPE_VARIETY_MAPPING =
    [(''cabernet sauvignon'', ''Cabernet Sauvignon''),
     (''cab sauv'', ''Cabernet Sauvignon''),
     (''cabernet'', ''Cabernet Sauvignon''),
     (''merlot'', ''Merlot''),
     (''pinot noir'', ''Pinot Noir''),
     (''pinot'', ''Pinot Noir''),
     (''syrah'', ''Syrah''),
     (''shiraz'', ''Syrah''),
     (''grenache'', ''Grenache''),
     (''sangiovese'', ''Sangiovese''),
     (''tempranillo'', ''Tempranillo''),
     (''nebbiolo'', ''Nebbiolo''),
     (''barbera'', ''Barbera''),
     (''malbec'', ''Malbec''),
     (''petit verdot'', ''Petit Verdot''),
     (''cabernet franc'', ''Cabernet Franc''),
     (''carmenere'', ''Carm'' @ [e_acute] @ ''n'' @ [e_grave] @ ''re''),
     (''carmen'' @ [e_grave] @ ''re'', ''Carm'' @ [e_acute] @ ''n'' @ [e_grave] @ ''re''),
     (''zinfandel'', ''Zinfandel''),
     (''primitivo'', ''Zinfandel''),
     (''gamay'', ''Gamay''),
     (''mourv'' @ [e_grave] @ ''dre'', ''Mourv'' @ [e_grave] @ ''dre''),
     (''mourvedre'', ''Mourv'' @ [e_grave] @ ''dre''),
     (''chardonnay'', ''Chardonnay''),
     (''sauvignon blanc'', ''Sauvignon Blanc''),
     (''sauv blanc'', ''Sauvignon Blanc''),
     (''riesling'', ''Riesling''),
     (''pinot grigio'', ''Pinot Grigio''),
     (''pinot gris'', ''Pinot Gris''),
     (''gew'' @ [u_uml] @ ''rztraminer'', ''Gew'' @ [u_uml] @ ''rztraminer''),
     (''gewurztraminer'', ''Gew'' @ [u_uml] @ ''rztraminer''),
     (''viognier'', ''Viognier''),
     (''chenin blanc'', ''Chenin Blanc''),
     (''semillon'', ''S'' @ [e_acute] @ ''millon''),
     (''s'' @ [e_acute] @ ''millon'', ''S'' @ [e_acute] @ ''millon''),
     (''albari'' @ [n_tilde] @ ''o'', ''Albari'' @ [n_tilde] @ ''o''),
     (''albarino'', ''Albari'' @ [n_tilde] @ ''o''),
     (''verdejo'', ''Verdejo''),
     (''gr'' @ [u_uml] @ ''ner veltliner'', ''Gr'' @ [u_uml] @ ''ner Veltliner''),
     (''gruner veltliner'', ''Gr'' @ [u_uml] @ ''ner Veltliner''),
     (''moscato'', ''Moscato''),
     (''muscat'', ''Muscat''),
     (''torront'' @ [e_acute] @ ''s'', ''Torront'' @ [e_acute] @ ''s''),
     (''torrontes'', ''Torront'' @ [e_acute] @ ''s'')]"

definition RED_INDICATORS :: "string list" where
  "RED_INDICATORS =
    [''cabernet'', ''merlot'', ''pinot noir'', ''syrah'', ''shiraz'', ''grenache'',
     ''sangiovese'', ''tempranillo'', ''nebbiolo'', ''barbera'', ''malbec'',
     ''zinfandel'', ''primitivo'', ''red wine'', ''rouge'', ''rosso'', ''tinto'']"

definition WHITE_INDICATORS :: "string list" where
  "WHITE_INDICATORS =
    [''chardonnay'', ''sauvignon blanc'', ''riesling'', ''pinot grigio'', ''pinot gris'',
     ''gew'' @ [u_uml] @ ''rztraminer'', ''viognier'', ''chenin blanc'', ''semillon'',
     ''albari'' @ [n_tilde] @ ''o'', ''white wine'', ''blanc'', ''bianco'', ''blanco'']"

definition SPARKLING_INDICATORS :: "string list" where
  "SPARKLING_INDICATORS =
    [''champagne'', ''prosecco'', ''cava'', ''cr'' @ [e_acute] @ ''mant'', ''sparkling'',
     ''spumante'', ''sekt'', ''espumoso'', ''mousseux'']"

definition ROSE_INDICATORS :: "string list" where
  "ROSE_INDICATORS = [''ros'' @ [e_acute], ''rose'', ''rosado'', ''rosato'', ''pink'']"

section \<open>\<open>WineDataNormalizer\<close>: the field normalizers\<close>

text \<open>
  The property access \<open>TABLE[key]\<close> on an object literal: the value of the own property
  \<open>key\<close>, else the value \<open>Object.prototype\<close> holds under that name, else \<open>undefined\<close>.
\<close>

definition table_lookup :: "(string \<times> string) list \<Rightarrow> string \<Rightarrow> text_value option" where
  "table_lookup table key =
     (case map_of table key of
        Some v \<Rightarrow> Some (Text v)
      | None \<Rightarrow> if key \<in> set inherited_properties then Some (Inherited key) else None)"

text \<open>
  The test \<open>if (TABLE[cleaned]) return TABLE[cleaned]\<close> followed by the loop over
  \<open>Object.entries(TABLE)\<close> (own properties only), which returns the value of the first key
  that contains \<open>cleaned\<close> or is contained in it. \<open>None\<close> when neither returns.
\<close>

definition lookup_alias :: "(string \<times> string) list \<Rightarrow> string \<Rightarrow> text_value option" where
  "lookup_alias table cleaned =
     (case table_lookup table cleaned of
        Some v \<Rightarrow>
          if truthy v then Some v
          else map_option (\<lambda>(key, v). Text v)
                 (find (\<lambda>(key, v). js_includes cleaned key \<or> js_includes key cleaned) table)
      | None \<Rightarrow>
          map_option (\<lambda>(key, v). Text v)
            (find (\<lambda>(key, v). js_includes cleaned key \<or> js_includes key cleaned) table))"

definition normalizeRegion :: "text_value \<Rightarrow> thrown + text_value" where
  "normalizeRegion region_arg =
     (if \<not> truthy region_arg then Inr (Text ''Unknown Region'')
      else
        (case region_arg of
           Inherited key \<Rightarrow> Inl (type_error ''region.toLowerCase'')
         | Text r \<Rightarrow>
             let cleaned = trim (toLowerCase r)
             in (case lookup_alias REGION_MAPPING cleaned of
                   Some v \<Rightarrow> Inr v
                 | None \<Rightarrow>
                     Inr (Text (join '', '' (map capitalize (map trim (split_on CHR '','' r))))))))"

definition normalizeVariety :: "text_value \<Rightarrow> thrown + text_value" where
  \<comment> \<open>the callback that \<open>normalizeGrapeVarieties\<close> maps over the varieties\<close>
  "normalizeVariety variety_arg =
     (case variety_arg of
        Inherited key \<Rightarrow> Inl (type_error ''variety.toLowerCase'')
      | Text variety \<Rightarrow>
          let cleaned = trim (toLowerCase variety)
          in (case lookup_alias GRAPE_VARIETY_MAPPING cleaned of
                Some v \<Rightarrow> Inr v
              | None \<Rightarrow> Inr (Text (join '' '' (map capitalize (split_on CHR '' '' variety))))))"

definition normalizeGrapeVarieties :: "text_value list \<Rightarrow> thrown + text_value list" where
  "normalizeGrapeVarieties varieties =
     (if varieties = [] then Inr []
      else
        (case map_throwing normalizeVariety varieties of
           Inl error \<Rightarrow> Inl error
         | Inr mapped \<Rightarrow> Inr (unique_first mapped)))"

definition determineWineColor :: "WineApiSearchResult \<Rightarrow> string" where
  "determineWineColor wine =
     (let searchText =
            toLowerCase
              (name wine @ '' '' @ join '' '' (map to_string (grape_varieties wine)) @ '' '' @
               (case description wine of None \<Rightarrow> [] | Some d \<Rightarrow> d))
      in if list_ex (\<lambda>indicator. js_includes searchText indicator) SPARKLING_INDICATORS
         then ''Sparkling''
         else if list_ex (\<lambda>indicator. js_includes searchText indicator) ROSE_INDICATORS
         then ''Ros'' @ [e_acute]
         else if list_ex (\<lambda>indicator. js_includes searchText indicator) WHITE_INDICATORS
         then ''White''
         else if list_ex (\<lambda>indicator. js_includes searchText indicator) RED_INDICATORS
         then ''Red''
         else if color wine \<noteq> [] then color wine else ''Red'')"

definition normalize_quotes :: "string \<Rightarrow> string" where
  \<comment> \<open>the two closing \<open>replace\<close> calls of the text normalizers, with the character classes
      as the source file has them\<close>
  "normalize_quotes s = replace_class [CHR 0x27, CHR 0x27] (CHR 0x27)
                          (replace_class [CHR 0x22, CHR 0x22] (CHR 0x22) s)"

definition normalizeName :: "string \<Rightarrow> string" where
  "normalizeName n =
     (if n = [] then [] else normalize_quotes (collapse_runs js_space (trim n)))"

definition winery_words :: "string list" where
  \<comment> \<open>the alternatives of the regex that strips a closing word: winery, wines, vineyard,
      estate, cellars?, domaine, and chateau with and without its circumflex\<close>
  "winery_words =
     [''winery'', ''wines'', ''vineyard'', ''estate'', ''cellars'', ''cellar'', ''domaine'',
      ''ch'' @ [a_circ] @ ''teau'', ''chateau'']"

definition ends_with_word :: "string \<Rightarrow> string \<Rightarrow> bool" where
  \<comment> \<open>the regex \<open>\bword\b$\<close> with flag \<open>i\<close> matches: \<open>s\<close> ends with \<open>word\<close> in any case,
      and no word character stands before it\<close>
  "ends_with_word s word =
     (length word \<le> length s \<and>
      toLowerCase (drop (length s - length word) s) = word \<and>
      (length s = length word \<or> \<not> word_char (s ! (length s - length word - 1))))"

definition strip_winery_word :: "string \<Rightarrow> string" where
  "strip_winery_word s =
     (case find (ends_with_word s) winery_words of
        None \<Rightarrow> s
      | Some word \<Rightarrow> take (length s - length word) s)"

definition normalizeVineyard :: "string \<Rightarrow> string" where
  "normalizeVineyard v =
     (if v = [] then ''Unknown Winery''
      else normalize_quotes (trim (strip_winery_word (collapse_runs js_space (trim v)))))"

definition normalizeVintage :: "int \<Rightarrow> int option \<Rightarrow> int option" where
  \<comment> \<open>the first argument is what \<open>new Date().getFullYear()\<close> returns at the call\<close>
  "normalizeVintage currentYear vintage =
     (case vintage of
        None \<Rightarrow> None
      | Some v \<Rightarrow>
          if v = 0 then None
          else if v < 1800 \<or> v > currentYear then None
          else Some v)"

definition normalizePrice :: "rat option \<Rightarrow> rat option" where
  "normalizePrice p =
     (case p of
        None \<Rightarrow> None
      | Some x \<Rightarrow>
          if x = 0 \<or> x \<le> 0 then None
          else if x < 1 \<or> x > 10000 then None
          else Some (of_int (Math_round (x * 100)) / 100))"

definition normalizeRating :: "rat option \<Rightarrow> string option \<Rightarrow> rat option" where
  "normalizeRating rating_arg source_arg =
     (case rating_arg of
        None \<Rightarrow> None
      | Some r \<Rightarrow>
          if r = 0 then None
          else if source_arg = Some ''vivino''
          then (if r \<ge> 1 \<and> r \<le> 5 then Some (of_int (Math_round (r * 20))) else None)
          else if source_arg = Some ''wine_api''
          then (if r \<ge> 1 \<and> r \<le> 100 then Some (of_int (Math_round r)) else None)
          else (if r \<ge> 1 \<and> r \<le> 5 then Some (of_int (Math_round (r * 20)))
                else if r \<ge> 1 \<and> r \<le> 100 then Some (of_int (Math_round r))
                else None))"

definition normalizeDescription :: "string option \<Rightarrow> string option" where
  "normalizeDescription d =
     (case d of
        None \<Rightarrow> None
      | Some text \<Rightarrow>
          if text = [] then None
          else Some (take 1000
                 (normalize_quotes
                    (collapse_runs (\<lambda>c. c = CHR 0x0A) (collapse_runs js_space (trim text))))))"

text \<open>
  \<open>normalizeWineData\<close>. The properties of the object literal are computed in the order
  written; a throw of \<open>normalizeRegion\<close> or \<open>normalizeGrapeVarieties\<close> ends the call.
\<close>

definition normalizeWineData :: "int \<Rightarrow> WineApiSearchResult \<Rightarrow> thrown + WineApiSearchResult" where
  \<comment> \<open>the first argument is the calendar year the clock shows when \<open>normalizeVintage\<close> runs\<close>
  "normalizeWineData currentYear wine =
     (case normalizeRegion (region wine) of
        Inl error \<Rightarrow> Inl error
      | Inr normalizedRegion \<Rightarrow>
          (case normalizeGrapeVarieties (grape_varieties wine) of
             Inl error \<Rightarrow> Inl error
           | Inr normalizedVarieties \<Rightarrow>
               Inr (wine\<lparr>name := normalizeName (name wine),
                         vineyard := normalizeVineyard (vineyard wine),
                         region := normalizedRegion,
                         color := determineWineColor wine,
                         grape_varieties := normalizedVarieties,
                         vintage_year := normalizeVintage currentYear (vintage_year wine),
                         rating := normalizeRating (rating wine) (Some (source wine)),
                         description := normalizeDescription (description wine),
                         price := normalizePrice (price wine),
                         currency := (case currency wine of
                                        None \<Rightarrow> Some ''USD''
                                      | Some c \<Rightarrow> if c = [] then Some ''USD'' else Some c),
                         food_pairings :=
                           (case food_pairings wine of
                              None \<Rightarrow> Some []
                            | Some ps \<Rightarrow>
                                Some (filter (\<lambda>pairing. length (trim pairing) > 0) ps))\<rparr>)))"

section \<open>\<open>WineApiService\<close>: state, rate limit, browser\<close>

text \<open>
  The fields of the service object, and the part of its surroundings that the code reads or
  changes: the clock (\<open>Date.now()\<close>, in milliseconds), how late the timers of
  \<open>setTimeout\<close> fire (one entry per timer still to be set; on time once the list is used
  up), how many browsers \<open>puppeteer.launch\<close> has started (a browser is identified by its
  launch number) and the browsers on which \<open>close\<close> has been called so far.
  \<open>puppeteer.launch\<close> and \<open>browser.close\<close> are taken to resolve.
\<close>

record world =
  requestCount :: nat
  lastRequestTime :: int
  browser :: "nat option"
  clock :: int
  timer_lateness :: "nat list"
  launches :: nat
  closed :: "nat list"

definition RATE_LIMIT_DELAY :: int where "RATE_LIMIT_DELAY = 2000"
definition MAX_RETRIES :: nat where "MAX_RETRIES = 3"
definition RETRY_DELAYS :: "int list" where "RETRY_DELAYS = [1000, 2000, 4000]"

definition sleep :: "int \<Rightarrow> world \<Rightarrow> world" where
  \<comment> \<open>\<open>await new Promise(resolve => setTimeout(resolve, delay))\<close> with nothing else running\<close>
  "sleep delay w =
     (case timer_lateness w of
        [] \<Rightarrow> w\<lparr>clock := clock w + delay\<rparr>
      | late # later \<Rightarrow> w\<lparr>clock := clock w + delay + int late, timer_lateness := later\<rparr>)"

definition advance :: "nat \<Rightarrow> world \<Rightarrow> world" where
  "advance duration w = w\<lparr>clock := clock w + int duration\<rparr>"

text \<open>
  \<open>rateLimit\<close> in its two synchronous parts: up to the \<open>await\<close> (the delay to wait for, or
  \<open>None\<close> when the \<open>if\<close> is skipped), and the two assignments after it.
\<close>

definition rateLimit_delay :: "world \<Rightarrow> int option" where
  "rateLimit_delay w =
     (let now = clock w;
          timeSinceLastRequest = now - lastRequestTime w
      in if timeSinceLastRequest < RATE_LIMIT_DELAY
         then Some (RATE_LIMIT_DELAY - timeSinceLastRequest) else None)"

definition rateLimit_record :: "world \<Rightarrow> world" where
  "rateLimit_record w = w\<lparr>lastRequestTime := clock w, requestCount := requestCount w + 1\<rparr>"

definition rateLimit :: "world \<Rightarrow> world" where
  \<comment> \<open>one call, with no other call running while it waits\<close>
  "rateLimit w =
     (case rateLimit_delay w of
        None \<Rightarrow> rateLimit_record w
      | Some delay \<Rightarrow> rateLimit_record (sleep delay w))"

text \<open>
  Calls of \<open>rateLimit\<close> that overlap, as requests served at the same time make them: a call
  that has to wait is suspended at its \<open>await\<close>, and other calls run before its timer
  fires. The state is the world, the due times of the suspended calls, and the values
  stored into \<open>lastRequestTime\<close> so far. A schedule that moves the clock backwards or fires
  a timer before it is due gives \<open>None\<close>.
\<close>

datatype loop_event = Call_rateLimit int | Timer_fires int

fun overlapped_step ::
  "loop_event \<Rightarrow> world \<times> int list \<times> int list \<Rightarrow> (world \<times> int list \<times> int list) option"
where
  "overlapped_step (Call_rateLimit t) (w, pending, recorded) =
     (if t < clock w then None
      else
        let w' = w\<lparr>clock := t\<rparr>
        in (case rateLimit_delay w' of
              None \<Rightarrow> Some (rateLimit_record w', pending, recorded @ [t])
            | Some delay \<Rightarrow> Some (w', pending @ [t + delay], recorded)))"
| "overlapped_step (Timer_fires t) (w, pending, recorded) =
     (case pending of
        [] \<Rightarrow> None
      | due # rest \<Rightarrow>
          if t < due \<or> t < clock w then None
          else Some (rateLimit_record (w\<lparr>clock := t\<rparr>), rest, recorded @ [t]))"

fun overlapped ::
  "loop_event list \<Rightarrow> world \<times> int list \<times> int list \<Rightarrow> (world \<times> int list \<times> int list) option"
where
  "overlapped [] st = Some st"
| "overlapped (ev # evs) st =
     (case overlapped_step ev st of None \<Rightarrow> None | Some st' \<Rightarrow> overlapped evs st')"

text \<open>
  \<open>getBrowser\<close> in its two synchronous parts: up to the \<open>await\<close> (the stored browser is
  returned, or \<open>puppeteer.launch\<close> is called), and, once the launch has resolved, the
  assignment to \<open>this.browser\<close> and the \<open>return\<close>.
\<close>

datatype browser_call = Returned nat | Awaiting_launch nat

definition getBrowser_begin :: "world \<Rightarrow> browser_call \<times> world" where
  "getBrowser_begin w =
     (case browser w of
        None \<Rightarrow> (Awaiting_launch (launches w), w\<lparr>launches := launches w + 1\<rparr>)
      | Some b \<Rightarrow> (Returned b, w))"

definition getBrowser_resume :: "nat \<Rightarrow> world \<Rightarrow> nat \<times> world" where
  "getBrowser_resume launched w =
     (let w' = w\<lparr>browser := Some launched\<rparr> in (the (browser w'), w'))"

definition getBrowser :: "world \<Rightarrow> nat \<times> world" where
  \<comment> \<open>one call, with nothing else running while the launch is awaited\<close>
  "getBrowser w =
     (case getBrowser_begin w of
        (Returned b, w') \<Rightarrow> (b, w')
      | (Awaiting_launch launched, w') \<Rightarrow> getBrowser_resume launched w')"

text \<open>
  \<open>closeBrowser\<close> in its two synchronous parts: up to the \<open>await\<close> (\<open>close\<close> is called on
  the stored browser; \<open>True\<close> when the call is suspended there), and the assignment of
  \<open>null\<close> after it.
\<close>

definition closeBrowser_begin :: "world \<Rightarrow> bool \<times> world" where
  "closeBrowser_begin w =
     (case browser w of
        None \<Rightarrow> (False, w)
      | Some b \<Rightarrow> (True, w\<lparr>closed := closed w @ [b]\<rparr>))"

definition closeBrowser_resume :: "world \<Rightarrow> world" where
  "closeBrowser_resume w = w\<lparr>browser := None\<rparr>"

definition closeBrowser :: "world \<Rightarrow> world" where
  \<comment> \<open>one call, with nothing else running while the close is awaited\<close>
  "closeBrowser w =
     (case closeBrowser_begin w of
        (False, w') \<Rightarrow> w'
      | (True, w') \<Rightarrow> closeBrowser_resume w')"

definition cleanup :: "world \<Rightarrow> world" where
  "cleanup w = closeBrowser w"

text \<open>
  Calls of \<open>getBrowser\<close> and \<open>cleanup\<close> that overlap, as requests served at the same time
  make them: a call suspended at its \<open>await\<close> lets other calls run before it resumes. The
  state is the world, the browsers whose launch is awaited (oldest first), the number of
  \<open>close\<close> calls awaited, and the browsers the calls of \<open>getBrowser\<close> have returned so
  far. Launches resolve in the order they were started. An event with nothing to resolve
  gives \<open>None\<close>.
\<close>

datatype browser_event = Call_getBrowser | Launch_resolves | Call_cleanup | Close_resolves

fun browser_step ::
  "browser_event \<Rightarrow> world \<times> nat list \<times> nat \<times> nat list \<Rightarrow>
   (world \<times> nat list \<times> nat \<times> nat list) option"
where
  "browser_step Call_getBrowser (w, launching, closing, returned) =
     (case getBrowser_begin w of
        (Returned b, w') \<Rightarrow> Some (w', launching, closing, returned @ [b])
      | (Awaiting_launch launched, w') \<Rightarrow> Some (w', launching @ [launched], closing, returned))"
| "browser_step Launch_resolves (w, launching, closing, returned) =
     (case launching of
        [] \<Rightarrow> None
      | launched # rest \<Rightarrow>
          (case getBrowser_resume launched w of
             (b, w') \<Rightarrow> Some (w', rest, closing, returned @ [b])))"
| "browser_step Call_cleanup (w, launching, closing, returned) =
     (case closeBrowser_begin w of
        (False, w') \<Rightarrow> Some (w', launching, closing, returned)
      | (True, w') \<Rightarrow> Some (w', launching, closing + 1, returned))"
| "browser_step Close_resolves (w, launching, closing, returned) =
     (if closing = 0 then None
      else Some (closeBrowser_resume w, launching, closing - 1, returned))"

fun browser_run ::
  "browser_event list \<Rightarrow> world \<times> nat list \<times> nat \<times> nat list \<Rightarrow>
   (world \<times> nat list \<times> nat \<times> nat list) option"
where
  "browser_run [] st = Some st"
| "browser_run (ev # evs) st =
     (case browser_step ev st of None \<Rightarrow> None | Some st' \<Rightarrow> browser_run evs st')"

section \<open>\<open>WineApiService\<close>: retry with backoff\<close>

fun isNonRetryableError :: "thrown \<Rightarrow> bool" where
  "isNonRetryableError Undefined_value = False"
| "isNonRetryableError (Error_object c m st) =
     (if c = Some ''ENOTFOUND'' \<or> c = Some ''ECONNREFUSED'' then True
      else if (case m of None \<Rightarrow> False | Some text \<Rightarrow> js_includes text ''Navigation timeout'')
      then False
      else if st = Some 404 \<or> st = Some 403 then True
      else False)"

text \<open>
  The \<open>for\<close> loop of \<open>retryWithExponentialBackoff\<close>. The operation is a closure over the
  service: it is given the number of the attempt and the world, and returns the value it
  resolves to (\<open>Inr\<close>) or the value it throws (\<open>Inl\<close>), and the world it leaves.
\<close>

function retry_loop ::
  "(nat \<Rightarrow> world \<Rightarrow> (thrown + 'a) \<times> world) \<Rightarrow> nat \<Rightarrow> thrown \<Rightarrow> world \<Rightarrow> (thrown + 'a) \<times> world"
where
  "retry_loop operation attempt lastError w =
     (if attempt < MAX_RETRIES
      then (case operation attempt w of
              (Inr v, w') \<Rightarrow> (Inr v, w')
            | (Inl error, w') \<Rightarrow>
                if isNonRetryableError error then (Inl error, w')
                else if attempt < MAX_RETRIES - 1
                then retry_loop operation (attempt + 1) error (sleep (RETRY_DELAYS ! attempt) w')
                else retry_loop operation (attempt + 1) error w')
      else (Inl lastError, w))"
  by pat_completeness auto
termination
  by (relation "measure (\<lambda>(operation, attempt, lastError, w). MAX_RETRIES - attempt)") auto

declare retry_loop.simps [simp del]

definition retryWithExponentialBackoff ::
  "(nat \<Rightarrow> world \<Rightarrow> (thrown + 'a) \<times> world) \<Rightarrow> world \<Rightarrow> (thrown + 'a) \<times> world"
where
  "retryWithExponentialBackoff operation w = retry_loop operation 0 Undefined_value w"

section \<open>\<open>WineApiService\<close>: the search operations\<close>

record WineApiSearchOptions =
  query :: string
  vintage :: "int option"
  region_filter :: "string option"
  limit :: "int option"

text \<open>
  What one run of the page work of \<open>performVivinoSearch\<close> gives (opening the page, loading
  the search URL, parsing the cards): the results collected from the cards (the loop over
  the cards stops at \<open>options.limit || 10\<close> cards) or the value thrown, and the time it took.
  The scraped site is outside the repository, so this is an input.
\<close>

record page_outcome =
  page_result :: "thrown + WineApiSearchResult list"
  page_duration :: nat

definition performVivinoSearch ::
  "page_outcome \<Rightarrow> world \<Rightarrow> (thrown + WineApiSearchResult list) \<times> world"
where
  "performVivinoSearch page w =
     (let w1 = rateLimit w;
          (b, w2) = getBrowser w1
      in (page_result page, advance (page_duration page) w2))"

definition searchVivino ::
  "(nat \<Rightarrow> page_outcome) \<Rightarrow> world \<Rightarrow> (thrown + WineApiSearchResult list) \<times> world"
where
  "searchVivino pages w =
     retryWithExponentialBackoff (\<lambda>attempt. performVivinoSearch (pages attempt)) w"

definition mockResults :: "WineApiSearchOptions \<Rightarrow> WineApiSearchResult list" where
  "mockResults options =
     [\<lparr>name = query options @ '' Estate'',
       vineyard = ''Heritage Vineyards'',
       region = Text (case region_filter options of
                        None \<Rightarrow> ''Sonoma County''
                      | Some r \<Rightarrow> if r = [] then ''Sonoma County'' else r),
       color = ''Red'',
       grape_varieties = [Text ''Pinot Noir''],
       vintage_year = (case vintage options of
                         None \<Rightarrow> Some 2019
                       | Some v \<Rightarrow> if v = 0 then Some 2019 else Some v),
       rating = Some 92,
       description = Some ''Elegant wine with bright acidity and cherry flavors.'',
       price = Some (77 / 2),
       currency = Some ''USD'',
       food_pairings = Some [''Salmon'', ''Duck'', ''Mushroom dishes''],
       image_url = None,
       source = ''wine_api''\<rparr>]"

definition searchWineApi ::
  "WineApiSearchOptions \<Rightarrow> world \<Rightarrow> (thrown + WineApiSearchResult list) \<times> world"
where
  "searchWineApi options w = (let w1 = rateLimit w in (Inr (mockResults options), w1))"

definition js_slice0 :: "'a list \<Rightarrow> int \<Rightarrow> 'a list" where
  \<comment> \<open>\<open>array.slice(0, end)\<close>: a negative \<open>end\<close> counts from the end of the array\<close>
  "js_slice0 array e =
     (if e < 0 then take (nat (int (length array) + e)) array else take (nat e) array)"

definition searchWine ::
  "int \<Rightarrow> (nat \<Rightarrow> page_outcome) \<Rightarrow> WineApiSearchOptions \<Rightarrow> world \<Rightarrow>
   (thrown + WineApiSearchResult list) \<times> world"
where
  \<comment> \<open>the first argument is the calendar year of the clock when the results are normalized.
      The normalization and the removal of duplicates stand outside the two \<open>try\<close> blocks:
      what they throw, \<open>searchWine\<close> throws.\<close>
  "searchWine currentYear pages options w =
     (let results = [];
          (vivino, w1) = searchVivino pages w;
          results = (case vivino of
                       Inr vivinoResults \<Rightarrow> results @ vivinoResults
                     | Inl error \<Rightarrow> results);
          (wineApi, w2) = searchWineApi options w1;
          results = (case wineApi of
                       Inr wineApiResults \<Rightarrow> results @ wineApiResults
                     | Inl error \<Rightarrow> results)
      in (case map_throwing (normalizeWineData currentYear) results of
            Inl error \<Rightarrow> (Inl error, w2)
          | Inr normalizedResults \<Rightarrow>
              (case removeDuplicates normalizedResults of
                 Inl error \<Rightarrow> (Inl error, w2)
               | Inr uniqueResults \<Rightarrow>
                   (Inr (js_slice0 uniqueResults
                           (case limit options of None \<Rightarrow> 10 | Some n \<Rightarrow> if n = 0 then 10 else n)),
                    w2))))"

definition vivinoDetails :: WineApiSearchResult where
  "vivinoDetails =
     \<lparr>name = ''Detailed Wine Name'', vineyard = ''Detailed Winery'', region = Text ''Detailed Region'', color = ''Red'',
      grape_varieties = [Text ''Cabernet Sauvignon'', Text ''Merlot''],
      vintage_year = Some 2018, rating = Some 90,
      description = Some ''Full detailed description from Vivino...'',
      price = Some 55, currency = Some ''USD'',
      food_pairings = Some [''Beef'', ''Lamb'', ''Strong cheese''],
      image_url = None, source = ''vivino''\<rparr>"

definition wineApiDetails :: WineApiSearchResult where
  "wineApiDetails =
     \<lparr>name = ''Another Detailed Wine'', vineyard = ''Premium Estates'', region = Text ''Bordeaux'', color = ''Red'',
      grape_varieties = [Text ''Cabernet Sauvignon'', Text ''Cabernet Franc''],
      vintage_year = Some 2017, rating = Some 95,
      description = Some ''Exceptional wine with complex flavors...'',
      price = Some 85, currency = Some ''USD'',
      food_pairings = Some [''Steak'', ''Game'', ''Aged cheese''],
      image_url = None, source = ''wine_api''\<rparr>"

definition getWineDetails :: "string \<Rightarrow> string \<Rightarrow> world \<Rightarrow> WineApiSearchResult option \<times> world" where
  \<comment> \<open>an unknown source throws inside the \<open>try\<close>, and the \<open>catch\<close> returns \<open>null\<close>\<close>
  "getWineDetails wine_ident src w =
     (let w1 = rateLimit w
      in (if src = ''vivino'' then Some vivinoDetails
          else if src = ''wine_api'' then Some wineApiDetails
          else None, w1))"

definition color_pairings :: "string option \<Rightarrow> string list" where
  "color_pairings c =
     (if c = Some ''Red'' then [''Red meat'', ''Hard cheese'', ''Dark chocolate'']
      else if c = Some ''White'' then [''Fish'', ''Poultry'', ''Soft cheese'']
      else if c = Some (''Ros'' @ [e_acute]) then [''Salmon'', ''Light pasta'', ''Fruit desserts'']
      else if c = Some ''Sparkling'' then [''Appetizers'', ''Seafood'', ''Celebration dishes'']
      else if c = Some ''Dessert'' then [''Desserts'', ''Blue cheese'', ''Foie gras'']
      else if c = Some ''Fortified'' then [''Nuts'', ''Dried fruits'', ''Strong cheese'']
      else [])"

definition grape_pairings :: "string \<Rightarrow> string list" where
  "grape_pairings grape =
     (let g = toLowerCase grape
      in if g = ''cabernet sauvignon'' then [''Grilled steak'', ''Lamb chops'']
         else if g = ''pinot noir'' then [''Duck'', ''Mushroom risotto'']
         else if g = ''chardonnay'' then [''Lobster'', ''Cream sauces'']
         else if g = ''sauvignon blanc'' then [''Goat cheese'', ''Shellfish'']
         else [])"

definition suggestFoodPairings ::
  "string option \<Rightarrow> string list option \<Rightarrow> world \<Rightarrow> string list \<times> world"
where
  \<comment> \<open>the two arguments are the properties \<open>color\<close> and \<open>grape_varieties\<close> of the wine passed\<close>
  "suggestFoodPairings wine_color wine_grapes w =
     (let w1 = rateLimit w;
          pairings = color_pairings wine_color;
          pairings = (case wine_grapes of
                        None \<Rightarrow> pairings
                      | Some grapes \<Rightarrow> pairings @ concat (map grape_pairings grapes))
      in (unique_first pairings, w1))"

section \<open>The database: tables \<open>wines\<close> and \<open>rack_slots\<close>\<close>

text \<open>
  A table is the list of its rows. Dates are timestamps. A JSON column holds the list it
  encodes. In requests, a property of type \<open>'a option\<close> is absent (\<open>None\<close>) or has a
  value; \<open>rack_slot\<close> can also be \<open>null\<close> (\<open>Some None\<close>). Numbers in request bodies are
  integers, except the price.
\<close>

record Wine =
  w_id :: string
  w_name :: string
  w_vineyard :: string
  w_region :: string
  w_color :: string
  w_grape_varieties :: "string list"
  w_price :: "rat option"
  w_currency :: string
  w_vintage_year :: "int option"
  w_date_added :: int
  w_rack_slot :: "string option"
  w_consumption_status :: string
  w_date_consumed :: "int option"
  w_description :: "string option"
  w_personal_notes :: "string option"
  w_rating :: "int option"
  w_food_pairings :: "string list option"
  w_created_at :: int
  w_updated_at :: int

record RackSlot =
  slot_id :: string
  wine_id :: "string option"
  rack_number :: int
  row :: string
  position :: int
  x_coordinate :: int
  y_coordinate :: int
  width :: int
  height :: int
  is_occupied :: bool
  last_updated :: int
  slot_created_at :: int
  slot_updated_at :: int

record database =
  wines :: "Wine list"
  rack_slots :: "RackSlot list"
  max_vintage_year :: int

definition validColors :: "string list" where
  "validColors = [''Red'', ''White'', ''Ros'' @ [e_acute], ''Sparkling'', ''Dessert'', ''Fortified'']"

definition validStatuses :: "string list" where
  "validStatuses = [''Available'', ''Consumed'', ''Reserved'']"

definition row_checks :: "database \<Rightarrow> Wine \<Rightarrow> bool" where
  \<comment> \<open>the CHECK constraints of the table \<open>wines\<close> (migration 001): the two enumerations,
      \<open>checkBetween\<close> on the vintage year (to the year the table was created in, kept in
      \<open>max_vintage_year\<close>) and on the rating; a NULL passes\<close>
  "row_checks db w =
     (w_color w \<in> set validColors \<and>
      w_consumption_status w \<in> set validStatuses \<and>
      (case w_vintage_year w of None \<Rightarrow> True | Some y \<Rightarrow> 1800 \<le> y \<and> y \<le> max_vintage_year db) \<and>
      (case w_rating w of None \<Rightarrow> True | Some r \<Rightarrow> 1 \<le> r \<and> r \<le> 100))"

definition constraint_error :: thrown where
  "constraint_error = Error_object (Some ''SQLITE_CONSTRAINT'') (Some ''constraint failed'') None"

section \<open>\<open>RackSlotModel\<close> and \<open>WineModel\<close>\<close>

definition clearSlotByWineId :: "string \<Rightarrow> int \<Rightarrow> database \<Rightarrow> bool \<times> database" where
  \<comment> \<open>the second argument is \<open>new Date()\<close>\<close>
  "clearSlotByWineId wineId now db =
     (let updatedRows = length (filter (\<lambda>r. wine_id r = Some wineId) (rack_slots db));
          db' = db\<lparr>rack_slots :=
                  map (\<lambda>r. if wine_id r = Some wineId
                             then r\<lparr>wine_id := None, is_occupied := False,
                                    last_updated := now, slot_updated_at := now\<rparr>
                             else r)
                    (rack_slots db)\<rparr>
      in (updatedRows > 0, db'))"

definition findById :: "string \<Rightarrow> database \<Rightarrow> Wine option" where
  "findById ident db = find (\<lambda>w. w_id w = ident) (wines db)"

record CreateWineRequest =
  c_name :: string
  c_vineyard :: string
  c_region :: string
  c_color :: string
  c_grape_varieties :: "string list"
  c_price :: "rat option"
  c_currency :: "string option"
  c_vintage_year :: "int option"
  c_rack_slot :: "string option"
  c_description :: "string option"
  c_personal_notes :: "string option"
  c_rating :: "int option"
  c_food_pairings :: "string list option"

record UpdateWineRequest =
  u_name :: "string option"
  u_vineyard :: "string option"
  u_region :: "string option"
  u_color :: "string option"
  u_grape_varieties :: "string list option"
  u_price :: "rat option"
  u_currency :: "string option"
  u_vintage_year :: "int option"
  u_rack_slot :: "string option option"
  u_description :: "string option"
  u_personal_notes :: "string option"
  u_rating :: "int option"
  u_food_pairings :: "string list option"
  u_consumption_status :: "string option"
  u_date_consumed :: "int option"

definition WineModel_create ::
  "string \<Rightarrow> int \<Rightarrow> CreateWineRequest \<Rightarrow> database \<Rightarrow> (thrown + Wine) \<times> database"
where
  \<comment> \<open>the first two arguments are the result of \<open>uuidv4()\<close> and the time of the insert; columns
      not given take the defaults of the table\<close>
  "WineModel_create new_id now wineData db =
     (let wine = \<lparr>w_id = new_id,
                  w_name = c_name wineData,
                  w_vineyard = c_vineyard wineData,
                  w_region = c_region wineData,
                  w_color = c_color wineData,
                  w_grape_varieties = c_grape_varieties wineData,
                  w_price = c_price wineData,
                  w_currency = (case c_currency wineData of
                                  None \<Rightarrow> ''USD''
                                | Some c \<Rightarrow> if c = [] then ''USD'' else c),
                  w_vintage_year = c_vintage_year wineData,
                  w_date_added = now,
                  w_rack_slot = c_rack_slot wineData,
                  w_consumption_status = ''Available'',
                  w_date_consumed = None,
                  w_description = c_description wineData,
                  w_personal_notes = c_personal_notes wineData,
                  w_rating = c_rating wineData,
                  w_food_pairings = c_food_pairings wineData,
                  w_created_at = now,
                  w_updated_at = now\<rparr>
      in if findById new_id db \<noteq> None \<or> \<not> row_checks db wine then (Inl constraint_error, db)
         else
           let db' = db\<lparr>wines := wines db @ [wine]\<rparr>
           in (case findById new_id db' of
                 None \<Rightarrow> (Inl (Error_object None (Some ''Failed to create wine'') None), db')
               | Some result \<Rightarrow> (Inr result, db')))"

definition or_else :: "'a option \<Rightarrow> 'a \<Rightarrow> 'a" where
  \<comment> \<open>a column keeps its value when the update does not name it\<close>
  "or_else given old = (case given of None \<Rightarrow> old | Some v \<Rightarrow> v)"

definition keep_or_set :: "'a option \<Rightarrow> 'a option \<Rightarrow> 'a option" where
  "keep_or_set given old = (case given of None \<Rightarrow> old | Some v \<Rightarrow> Some v)"

definition apply_update :: "UpdateWineRequest \<Rightarrow> int \<Rightarrow> Wine \<Rightarrow> Wine" where
  \<comment> \<open>\<open>.update({...updateData, updated_at: new Date()})\<close> on one row\<close>
  "apply_update updateData now w =
     w\<lparr>w_name := or_else (u_name updateData) (w_name w),
       w_vineyard := or_else (u_vineyard updateData) (w_vineyard w),
       w_region := or_else (u_region updateData) (w_region w),
       w_color := or_else (u_color updateData) (w_color w),
       w_grape_varieties := or_else (u_grape_varieties updateData) (w_grape_varieties w),
       w_price := keep_or_set (u_price updateData) (w_price w),
       w_currency := or_else (u_currency updateData) (w_currency w),
       w_vintage_year := keep_or_set (u_vintage_year updateData) (w_vintage_year w),
       w_rack_slot := or_else (u_rack_slot updateData) (w_rack_slot w),
       w_consumption_status := or_else (u_consumption_status updateData) (w_consumption_status w),
       w_date_consumed := keep_or_set (u_date_consumed updateData) (w_date_consumed w),
       w_description := keep_or_set (u_description updateData) (w_description w),
       w_personal_notes := keep_or_set (u_personal_notes updateData) (w_personal_notes w),
       w_rating := keep_or_set (u_rating updateData) (w_rating w),
       w_food_pairings := keep_or_set (u_food_pairings updateData) (w_food_pairings w),
       w_updated_at := now\<rparr>"

definition update_rows :: "string \<Rightarrow> (Wine \<Rightarrow> Wine) \<Rightarrow> database \<Rightarrow> thrown + database" where
  \<comment> \<open>\<open>db('wines').where({ id }).update(...)\<close>: the statement fails as a whole when a changed
      row breaks a CHECK constraint\<close>
  "update_rows ident change db =
     (let changed = map (\<lambda>w. if w_id w = ident then change w else w) (wines db)
      in if list_all (row_checks db) (filter (\<lambda>w. w_id w = ident) changed)
         then Inr (db\<lparr>wines := changed\<rparr>)
         else Inl constraint_error)"

definition WineModel_update ::
  "string \<Rightarrow> UpdateWineRequest \<Rightarrow> int \<Rightarrow> database \<Rightarrow> (thrown + Wine option) \<times> database"
where
  "WineModel_update ident updates now db =
     (let updateData = updates;
          (db1, updateData) =
             (if u_consumption_status updates = Some ''Consumed''
              then (snd (clearSlotByWineId ident now db), updateData\<lparr>u_rack_slot := Some None\<rparr>)
              else (db, updateData))
      in (case update_rows ident (apply_update updateData now) db1 of
            Inl error \<Rightarrow> (Inl error, db1)
          | Inr db2 \<Rightarrow> (Inr (findById ident db2), db2)))"

definition WineModel_markConsumed ::
  "string \<Rightarrow> int option \<Rightarrow> int \<Rightarrow> database \<Rightarrow> (thrown + Wine option) \<times> database"
where
  "WineModel_markConsumed ident consumedDate now db =
     (let db1 = snd (clearSlotByWineId ident now db)
      in (case update_rows ident
                 (\<lambda>w. w\<lparr>w_consumption_status := ''Consumed'',
                          w_date_consumed := Some (or_else consumedDate now),
                          w_rack_slot := None,
                          w_updated_at := now\<rparr>) db1 of
            Inl error \<Rightarrow> (Inl error, db1)
          | Inr db2 \<Rightarrow> (Inr (findById ident db2), db2)))"

section \<open>The routes \<open>POST /api/wines\<close>, \<open>PUT /api/wines/:id\<close> and \<open>POST /api/wines/:id/consume\<close>\<close>

record wine_body =
  b_name :: "string option"
  b_vineyard :: "string option"
  b_region :: "string option"
  b_color :: "string option"
  b_grape_varieties :: "string list option"
  b_price :: "rat option"
  b_currency :: "string option"
  b_vintage_year :: "int option"
  b_rack_slot :: "string option option"
  b_consumption_status :: "string option"
  b_date_consumed :: "int option"
  b_description :: "string option"
  b_personal_notes :: "string option"
  b_rating :: "int option"
  b_food_pairings :: "string list option"

datatype response_body = Error_message string | Wine_json "Wine option"

record response =
  res_status :: nat
  res_body :: response_body

definition falsy_string :: "string option \<Rightarrow> bool" where
  "falsy_string v = (case v of None \<Rightarrow> True | Some text \<Rightarrow> text = [])"

definition invalid_vintage_year :: "int \<Rightarrow> int option \<Rightarrow> bool" where
  \<comment> \<open>\<open>req.body.vintage_year && (req.body.vintage_year < 1800 || req.body.vintage_year > new Date().getFullYear())\<close>\<close>
  "invalid_vintage_year currentYear v =
     (case v of None \<Rightarrow> False | Some y \<Rightarrow> y \<noteq> 0 \<and> (y < 1800 \<or> y > currentYear))"

definition invalid_rating :: "int option \<Rightarrow> bool" where
  \<comment> \<open>\<open>req.body.rating && (req.body.rating < 1 || req.body.rating > 100)\<close>\<close>
  "invalid_rating v = (case v of None \<Rightarrow> False | Some r \<Rightarrow> r \<noteq> 0 \<and> (r < 1 \<or> r > 100))"

definition drop_zero :: "'a::zero option \<Rightarrow> 'a option" where
  \<comment> \<open>\<open>x ? parse(x) : undefined\<close> on a number\<close>
  "drop_zero v = (case v of None \<Rightarrow> None | Some x \<Rightarrow> if x = 0 then None else Some x)"

definition post_wine ::
  "int \<Rightarrow> int \<Rightarrow> string \<Rightarrow> wine_body \<Rightarrow> database \<Rightarrow> response \<times> database"
where
  \<comment> \<open>the first three arguments: the calendar year and the time of the clock, and the new id\<close>
  "post_wine currentYear now new_id body db =
     (if falsy_string (b_name body) \<or> falsy_string (b_vineyard body) \<or>
         falsy_string (b_region body) \<or> falsy_string (b_color body) \<or>
         b_grape_varieties body = None
      then (\<lparr>res_status = 400,
             res_body = Error_message
               ''Missing required fields: name, vineyard, region, color, grape_varieties''\<rparr>, db)
      else if the (b_color body) \<notin> set validColors
      then (\<lparr>res_status = 400,
             res_body = Error_message (''Invalid color. Must be one of: '' @ join '', '' validColors)\<rparr>, db)
      else if invalid_vintage_year currentYear (b_vintage_year body)
      then (\<lparr>res_status = 400,
             res_body = Error_message
               ''Invalid vintage year. Must be between 1800 and current year''\<rparr>, db)
      else if invalid_rating (b_rating body)
      then (\<lparr>res_status = 400,
             res_body = Error_message ''Invalid rating. Must be between 1 and 100''\<rparr>, db)
      else
        let wineData =
              \<lparr>c_name = trim (the (b_name body)),
               c_vineyard = trim (the (b_vineyard body)),
               c_region = trim (the (b_region body)),
               c_color = the (b_color body),
               c_grape_varieties = map trim (the (b_grape_varieties body)),
               c_price = drop_zero (b_price body),
               c_currency = (if falsy_string (b_currency body) then Some ''USD''
                             else b_currency body),
               c_vintage_year = drop_zero (b_vintage_year body),
               c_rack_slot = (case b_rack_slot body of
                                Some (Some slot) \<Rightarrow> Some (trim slot)
                              | _ \<Rightarrow> None),
               c_description = map_option trim (b_description body),
               c_personal_notes = map_option trim (b_personal_notes body),
               c_rating = drop_zero (b_rating body),
               c_food_pairings = map_option (map trim) (b_food_pairings body)\<rparr>
        in (case WineModel_create new_id now wineData db of
              (Inr wine, db') \<Rightarrow> (\<lparr>res_status = 201, res_body = Wine_json (Some wine)\<rparr>, db')
            | (Inl error, db') \<Rightarrow>
                (\<lparr>res_status = 500, res_body = Error_message ''Failed to create wine''\<rparr>, db')))"

definition put_wine ::
  "int \<Rightarrow> int \<Rightarrow> string \<Rightarrow> wine_body \<Rightarrow> database \<Rightarrow> response \<times> database"
where
  "put_wine currentYear now ident body db =
     (case findById ident db of
        None \<Rightarrow> (\<lparr>res_status = 404, res_body = Error_message ''Wine not found''\<rparr>, db)
      | Some existingWine \<Rightarrow>
          if \<not> falsy_string (b_color body) \<and> the (b_color body) \<notin> set validColors
          then (\<lparr>res_status = 400,
                 res_body = Error_message
                   (''Invalid color. Must be one of: '' @ join '', '' validColors)\<rparr>, db)
          else if invalid_vintage_year currentYear (b_vintage_year body)
          then (\<lparr>res_status = 400,
                 res_body = Error_message
                   ''Invalid vintage year. Must be between 1800 and current year''\<rparr>, db)
          else if invalid_rating (b_rating body)
          then (\<lparr>res_status = 400,
                 res_body = Error_message ''Invalid rating. Must be between 1 and 100''\<rparr>, db)
          else if \<not> falsy_string (b_consumption_status body) \<and>
                  the (b_consumption_status body) \<notin> set validStatuses
          then (\<lparr>res_status = 400,
                 res_body = Error_message
                   (''Invalid consumption status. Must be one of: '' @ join '', '' validStatuses)\<rparr>,
                db)
          else
            let updateData =
                  \<lparr>u_name = map_option trim (b_name body),
                   u_vineyard = map_option trim (b_vineyard body),
                   u_region = map_option trim (b_region body),
                   u_color = map_option trim (b_color body),
                   u_grape_varieties = map_option (map trim) (b_grape_varieties body),
                   u_price = b_price body,
                   u_currency = map_option trim (b_currency body),
                   u_vintage_year = b_vintage_year body,
                   u_rack_slot = map_option (map_option trim) (b_rack_slot body),
                   u_description = map_option trim (b_description body),
                   u_personal_notes = map_option trim (b_personal_notes body),
                   u_rating = b_rating body,
                   u_food_pairings = map_option (map trim) (b_food_pairings body),
                   u_consumption_status = map_option trim (b_consumption_status body),
                   u_date_consumed = b_date_consumed body\<rparr>
            in (case WineModel_update ident updateData now db of
                  (Inr updatedWine, db') \<Rightarrow>
                    (\<lparr>res_status = 200, res_body = Wine_json updatedWine\<rparr>, db')
                | (Inl error, db') \<Rightarrow>
                    (\<lparr>res_status = 500, res_body = Error_message ''Failed to update wine''\<rparr>, db')))"

definition consume_wine ::
  "int \<Rightarrow> string \<Rightarrow> int option \<Rightarrow> database \<Rightarrow> response \<times> database"
where
  \<comment> \<open>the third argument is \<open>req.body.consumed_date\<close>\<close>
  "consume_wine now ident consumed_date db =
     (case findById ident db of
        None \<Rightarrow> (\<lparr>res_status = 404, res_body = Error_message ''Wine not found''\<rparr>, db)
      | Some wine \<Rightarrow>
          if w_consumption_status wine = ''Consumed''
          then (\<lparr>res_status = 400,
                 res_body = Error_message ''Wine is already marked as consumed''\<rparr>, db)
          else
            let consumedDate = or_else (drop_zero consumed_date) now
            in (case WineModel_markConsumed ident (Some consumedDate) now db of
                  (Inr updatedWine, db') \<Rightarrow>
                    (\<lparr>res_status = 200, res_body = Wine_json updatedWine\<rparr>, db')
                | (Inl error, db') \<Rightarrow>
                    (\<lparr>res_status = 500,
                      res_body = Error_message ''Failed to mark wine as consumed''\<rparr>, db')))"

section \<open>Notions used in the proofs, and sample data\<close>

definition marked :: "bool list \<Rightarrow> nat" where
  \<comment> \<open>how many positions of a match array are set\<close>
  "marked m = length (filter (\<lambda>b. b) m)"

definition marked_characters :: "string \<Rightarrow> bool list \<Rightarrow> nat \<Rightarrow> string" where
  \<comment> \<open>the characters at the positions from \<open>k\<close> on that a match array has set\<close>
  "marked_characters s m k = map (\<lambda>i. s ! i) (filter (\<lambda>i. m ! i) [k..<length m])"

definition plain_texts :: "WineApiSearchResult \<Rightarrow> bool" where
  \<comment> \<open>the region and the grape varieties are strings, and the region in lower case without
      surrounding white space is not the name of a property of \<open>Object.prototype\<close>\<close>
  "plain_texts wine =
     ((case region wine of
         Text r \<Rightarrow> trim (toLowerCase r) \<notin> set inherited_properties
       | Inherited key \<Rightarrow> False) \<and>
      list_all (\<lambda>variety. case variety of Text v \<Rightarrow> True | Inherited key \<Rightarrow> False)
        (grape_varieties wine))"

definition sample_wine :: "string \<Rightarrow> string \<Rightarrow> string \<Rightarrow> int option \<Rightarrow> WineApiSearchResult" where
  "sample_wine n v r y =
     \<lparr>name = n, vineyard = v, region = Text r, color = ''Red'',
      grape_varieties = [Text ''Cabernet Sauvignon''], vintage_year = y, rating = Some 96,
      description = None, price = None, currency = None, food_pairings = None,
      image_url = None, source = ''vivino''\<rparr>"

definition opus_a :: WineApiSearchResult where
  "opus_a = sample_wine ''Opus One 2015'' ''Opus One'' ''Napa Valley'' (Some 2015)"

definition opus_b :: WineApiSearchResult where
  "opus_b = sample_wine ''Opus One  2015'' ''Opus one'' ''Napa Valley, California'' (Some 2015)"

definition tignanello :: WineApiSearchResult where
  "tignanello = sample_wine ''Tignanello'' ''Antinori'' ''Tuscany'' (Some 2018)"

definition threshold_a :: WineApiSearchResult where
  "threshold_a = sample_wine ''a'' ''abcd'' [] (Some 2015)"

definition threshold_b :: WineApiSearchResult where
  "threshold_b = sample_wine ''a'' ''ba'' ''a'' (Some 2015)"

definition future_wine :: WineApiSearchResult where
  "future_wine = sample_wine ''Barolo'' ''Giacomo Conterno'' ''Piedmont'' (Some 2026)"

definition world0 :: world where
  "world0 = \<lparr>requestCount = 0, lastRequestTime = 0, browser = None, clock = 0,
             timer_lateness = [], launches = 0, closed = []\<rparr>"

definition always_fails :: "thrown \<Rightarrow> nat \<Rightarrow> world \<Rightarrow> (thrown + unit) \<times> world" where
  \<comment> \<open>an operation that throws the same value at every attempt, and counts its calls in
      \<open>requestCount\<close>\<close>
  "always_fails e attempt w = (Inl e, w\<lparr>requestCount := requestCount w + 1\<rparr>)"

definition timeout_404 :: thrown where
  "timeout_404 = Error_object None (Some ''Navigation timeout of 45000 ms exceeded'') (Some 404)"

definition dns_failure :: thrown where
  "dns_failure = Error_object (Some ''ENOTFOUND'') (Some ''getaddrinfo ENOTFOUND'') None"

definition server_error :: thrown where
  "server_error = Error_object None (Some ''Internal Server Error'') (Some 500)"

definition vivino_card :: "string \<Rightarrow> string \<Rightarrow> string \<Rightarrow> int option \<Rightarrow> WineApiSearchResult" where
  \<comment> \<open>the result \<open>performVivinoSearch\<close> builds from a card with this name, winery and
      region (the year is the one \<open>extractYear\<close> finds in the name), rating text 4.8, no
      grape named in the name, no price and no image\<close>
  "vivino_card n v r y =
     \<lparr>name = n, vineyard = v, region = Text r, color = ''Red'',
      grape_varieties = [Text ''Red Blend''], vintage_year = y, rating = Some 96,
      description = None, price = None, currency = Some ''USD'', food_pairings = None,
      image_url = None, source = ''vivino''\<rparr>"

definition card_opus :: WineApiSearchResult where
  "card_opus = vivino_card ''Opus One 2015'' ''Opus One'' ''Napa Valley'' (Some 2015)"

definition card_tignanello :: WineApiSearchResult where
  "card_tignanello = vivino_card ''Tignanello 2018'' ''Antinori'' ''Tuscany'' (Some 2018)"

definition site_down :: "nat \<Rightarrow> page_outcome" where
  "site_down attempt = \<lparr>page_result = Inl dns_failure, page_duration = 0\<rparr>"

definition site_lists :: "WineApiSearchResult list \<Rightarrow> nat \<Rightarrow> page_outcome" where
  "site_lists found attempt = \<lparr>page_result = Inr found, page_duration = 1500\<rparr>"

definition opus_search :: "int option \<Rightarrow> WineApiSearchOptions" where
  "opus_search n = \<lparr>query = ''Opus One'', vintage = None, region_filter = None, limit = n\<rparr>"

definition constructor_search :: WineApiSearchOptions where
  "constructor_search =
     \<lparr>query = ''Opus One'', vintage = None, region_filter = Some ''constructor'', limit = None\<rparr>"

definition cellar_wine :: "string \<Rightarrow> string \<Rightarrow> string option \<Rightarrow> Wine" where
  "cellar_wine ident st slot =
     \<lparr>w_id = ident, w_name = ''Tignanello'', w_vineyard = ''Antinori'', w_region = ''Tuscany'',
      w_color = ''Red'', w_grape_varieties = [''Sangiovese''], w_price = Some 120,
      w_currency = ''EUR'', w_vintage_year = Some 2018, w_date_added = 100,
      w_rack_slot = slot, w_consumption_status = st, w_date_consumed = None,
      w_description = None, w_personal_notes = None, w_rating = Some 94,
      w_food_pairings = None, w_created_at = 100, w_updated_at = 100\<rparr>"

definition cellar_slot :: "string \<Rightarrow> string option \<Rightarrow> RackSlot" where
  "cellar_slot sid wid =
     \<lparr>slot_id = sid, wine_id = wid, rack_number = 1, row = ''A'', position = 1,
      x_coordinate = 10, y_coordinate = 10, width = 20, height = 80,
      is_occupied = (wid \<noteq> None), last_updated = 100, slot_created_at = 100,
      slot_updated_at = 100\<rparr>"

definition cellar :: database where
  "cellar = \<lparr>wines = [cellar_wine ''w1'' ''Available'' (Some ''A1'')],
             rack_slots = [cellar_slot ''A1'' (Some ''w1''), cellar_slot ''A2'' None],
             max_vintage_year = 2025\<rparr>"

definition empty_body :: wine_body where
  "empty_body =
     \<lparr>b_name = None, b_vineyard = None, b_region = None, b_color = None,
      b_grape_varieties = None, b_price = None, b_currency = None, b_vintage_year = None,
      b_rack_slot = None, b_consumption_status = None, b_date_consumed = None,
      b_description = None, b_personal_notes = None, b_rating = None,
      b_food_pairings = None\<rparr>"

definition new_wine_body :: wine_body where
  "new_wine_body =
     empty_body\<lparr>b_name := Some ''Sassicaia'', b_vineyard := Some ''Tenuta San Guido'',
                b_region := Some ''Tuscany'', b_color := Some ''Red'',
                b_grape_varieties := Some [''Cabernet Sauvignon'']\<rparr>"

definition no_update :: UpdateWineRequest where
  "no_update =
     \<lparr>u_name = None, u_vineyard = None, u_region = None, u_color = None,
      u_grape_varieties = None, u_price = None, u_currency = None, u_vintage_year = None,
      u_rack_slot = None, u_description = None, u_personal_notes = None, u_rating = None,
      u_food_pairings = None, u_consumption_status = None, u_date_consumed = None\<rparr>"

definition consumed_without_slot :: "string \<Rightarrow> int \<Rightarrow> database \<Rightarrow> database \<Rightarrow> bool" where
  \<comment> \<open>what holds of the database \<open>db'\<close> left by an operation that marks the wine \<open>ident\<close> as
      consumed at time \<open>now\<close>, starting from \<open>db\<close>\<close>
  "consumed_without_slot ident now db db' =
     ((\<forall>w\<in>set (wines db'). w_id w = ident \<longrightarrow>
          w_consumption_status w = ''Consumed'' \<and> w_rack_slot w = None) \<and>
      (\<forall>s\<in>set (rack_slots db'). wine_id s \<noteq> Some ident) \<and>
      rack_slots db' =
        map (\<lambda>s. if wine_id s = Some ident
                   then s\<lparr>wine_id := None, is_occupied := False,
                          last_updated := now, slot_updated_at := now\<rparr>
                   else s)
          (rack_slots db))"

section \<open>\<open>stringSimilarity\<close> returns the Jaro-Winkler similarity\<close>

lemma marked_update:
  "i < length m \<Longrightarrow> \<not> m ! i \<Longrightarrow> marked (m[i := True]) = marked m + 1"
proof (induction m arbitrary: i)
  case Nil
  then show ?case by simp
next
  case (Cons b m)
  then show ?case by (cases i) (auto simp: marked_def)
qed

lemma marked_drop_Suc:
  "k < length m \<Longrightarrow> marked (drop k m) = (if m ! k then 1 else 0) + marked (drop (Suc k) m)"
  by (simp add: marked_def flip: Cons_nth_drop_Suc)

lemma find_match_find:
  "find_match c s2 m j e = find (\<lambda>j. \<not> m ! j \<and> s2 ! j = c) [j..<e]"
proof (induction c s2 m j e rule: find_match.induct)
  case (1 c s2 m j e)
  show ?case
  proof (cases "j < e")
    case False
    then show ?thesis by (subst find_match.simps) simp
  next
    case True
    then have range: "[j..<e] = j # [j + 1..<e]" by (simp add: upt_conv_Cons)
    show ?thesis
    proof (cases "m ! j \<or> c \<noteq> s2 ! j")
      case True
      with \<open>j < e\<close> "1.IH" show ?thesis
        by (subst find_match.simps) (auto simp: range)
    next
      case False
      with \<open>j < e\<close> show ?thesis
        by (subst find_match.simps) (auto simp: range)
    qed
  qed
qed

lemma find_match_Some:
  "find_match c s2 m j e = Some r \<Longrightarrow> j \<le> r \<and> r < e \<and> \<not> m ! r \<and> c = s2 ! r"
  by (auto simp: find_match_find find_Some_iff)

lemma find_matches_invariant:
  assumes "find_matches s1 s2 w i (m1, m2, n) = (m1', m2', n')"
    and "length m1 = length s1" and "length m2 = length s2"
    and "marked m1 = marked m2" and "\<forall>i'. i \<le> i' \<and> i' < length m1 \<longrightarrow> \<not> m1 ! i'"
    and "n = marked m1"
  shows "length m1' = length s1 \<and> length m2' = length s2 \<and> marked m1' = marked m2' \<and> n' = marked m1'"
  using assms
proof (induction s1 s2 w i "(m1, m2, n)" arbitrary: m1 m2 n rule: find_matches.induct)
  case (1 s1 s2 w i m1 m2 n)
  show ?case
  proof (cases "i < length s1")
    case False
    with "1.prems" show ?thesis by (auto simp: find_matches.simps)
  next
    case True
    show ?thesis
    proof (cases "find_match (s1 ! i) s2 m2 (i - w) (min (i + w + 1) (length s2))")
      case None
      with True "1.prems" have "find_matches s1 s2 w (i + 1) (m1, m2, n) = (m1', m2', n')"
        by (subst (asm) find_matches.simps) simp
      with "1.hyps"(1)[OF True None] "1.prems" show ?thesis by auto
    next
      case (Some j)
      from find_match_Some[OF Some] "1.prems" have j: "j < length m2" "\<not> m2 ! j" by auto
      from True "1.prems" have i: "i < length m1" "\<not> m1 ! i" by auto
      from True Some "1.prems"
      have run: "find_matches s1 s2 w (i + 1) (m1[i := True], m2[j := True], n + 1) = (m1', m2', n')"
        by (subst (asm) find_matches.simps) simp
      have "\<forall>i'. i + 1 \<le> i' \<and> i' < length (m1[i := True]) \<longrightarrow> \<not> m1[i := True] ! i'"
        using "1.prems" by auto
      with "1.hyps"(2)[OF True Some run] "1.prems" i j show ?thesis
        by (simp add: marked_update)
    qed
  qed
qed

lemma find_matches_reference:
  assumes "find_matches s1 s2 d i (m1, m2, n) = (m1', m2', n')"
    and "length m1 = length s1" and "length m2 = length s2"
    and "\<forall>j<length s2. m2 ! j \<longleftrightarrow> j \<in> set taken"
  shows "n' = n + length (jaro_assign d s1 s2 [i..<length s1] taken) \<and>
         (\<forall>i'<length s1. m1' ! i' \<longleftrightarrow>
            m1 ! i' \<or> i' \<in> fst ` set (jaro_assign d s1 s2 [i..<length s1] taken)) \<and>
         (\<forall>j<length s2. m2' ! j \<longleftrightarrow>
            j \<in> set taken \<or> j \<in> snd ` set (jaro_assign d s1 s2 [i..<length s1] taken))"
  using assms
proof (induction s1 s2 d i "(m1, m2, n)" arbitrary: m1 m2 n taken rule: find_matches.induct)
  case (1 s1 s2 d i m1 m2 n)
  show ?case
  proof (cases "i < length s1")
    case False
    with "1.prems" show ?thesis by (auto simp: find_matches.simps)
  next
    case True
    then have range: "[i..<length s1] = i # [i + 1..<length s1]" by (simp add: upt_conv_Cons)
    let ?js = "[i - d..<min (i + d + 1) (length s2)]"
    have same: "find (\<lambda>j. \<not> m2 ! j \<and> s2 ! j = s1 ! i) ?js =
                find (\<lambda>j. j \<notin> set taken \<and> s2 ! j = s1 ! i) ?js"
      using "1.prems"(4) by (intro find_cong) auto
    show ?thesis
    proof (cases "find_match (s1 ! i) s2 m2 (i - d) (min (i + d + 1) (length s2))")
      case None
      with True "1.prems" have run: "find_matches s1 s2 d (i + 1) (m1, m2, n) = (m1', m2', n')"
        by (subst (asm) find_matches.simps) simp
      from None same have found: "find (\<lambda>j. j \<notin> set taken \<and> s2 ! j = s1 ! i) ?js = None"
        by (simp only: find_match_find)
      have ref: "jaro_assign d s1 s2 [i..<length s1] taken =
          jaro_assign d s1 s2 [i + 1..<length s1] taken"
        by (simp only: range jaro_assign.simps found option.case)
      from "1.hyps"(1)[OF True None run "1.prems"(2,3,4)] show ?thesis
        unfolding ref .
    next
      case (Some j)
      from find_match_Some[OF Some] "1.prems" have j: "j < length s2" "j < length m2" by auto
      from True Some "1.prems"
      have run: "find_matches s1 s2 d (i + 1) (m1[i := True], m2[j := True], n + 1) = (m1', m2', n')"
        by (subst (asm) find_matches.simps) simp
      from Some same have found: "find (\<lambda>j. j \<notin> set taken \<and> s2 ! j = s1 ! i) ?js = Some j"
        by (simp only: find_match_find)
      have ref: "jaro_assign d s1 s2 [i..<length s1] taken =
          (i, j) # jaro_assign d s1 s2 [i + 1..<length s1] (j # taken)"
        by (simp only: range jaro_assign.simps found option.case)
      have inv: "\<forall>j'<length s2. m2[j := True] ! j' \<longleftrightarrow> j' \<in> set (j # taken)"
        using "1.prems"(3,4) j by (auto simp: nth_list_update)
      have len: "length (m1[i := True]) = length s1" "length (m2[j := True]) = length s2"
        using "1.prems" by simp_all
      from "1.hyps"(2)[OF True Some run len inv] True "1.prems"(2) show ?thesis
        by (auto simp: ref nth_list_update)
    qed
  qed
qed

lemma skip_unmatched_finds:
  "0 < marked (drop k m) \<Longrightarrow>
   \<exists>k'. skip_unmatched m k = Some k' \<and> k \<le> k' \<and> k' < length m \<and> m ! k'
        \<and> marked (drop (Suc k') m) + 1 = marked (drop k m)
        \<and> (\<forall>j. k \<le> j \<and> j < k' \<longrightarrow> \<not> m ! j)"
proof (induction "length m - k" arbitrary: k)
  case 0
  then show ?case by (simp add: marked_def)
next
  case (Suc d)
  then have k: "k < length m" by simp
  show ?case
  proof (cases "m ! k")
    case True
    with k show ?thesis
      by (subst skip_unmatched.simps) (auto simp: marked_drop_Suc)
  next
    case False
    with k Suc.prems have "0 < marked (drop (Suc k) m)" by (simp add: marked_drop_Suc)
    moreover from Suc.hyps(2) have "d = length m - Suc k" by simp
    ultimately obtain k' where k': "skip_unmatched m (Suc k) = Some k'" "Suc k \<le> k'" "k' < length m"
      "m ! k'" "marked (drop (Suc k') m) + 1 = marked (drop (Suc k) m)"
      "\<forall>j. Suc k \<le> j \<and> j < k' \<longrightarrow> \<not> m ! j"
      using Suc.hyps(1) by blast
    have "\<forall>j. k \<le> j \<and> j < k' \<longrightarrow> \<not> m ! j"
    proof (intro allI impI)
      fix j assume "k \<le> j \<and> j < k'"
      then show "\<not> m ! j" using False k'(6) by (cases "j = k") auto
    qed
    with k' False k show ?thesis
      by (subst skip_unmatched.simps) (simp add: marked_drop_Suc)
  qed
qed

lemma marked_characters_skip:
  assumes "k \<le> k'" "k' < length m" "m ! k'" "\<forall>j. k \<le> j \<and> j < k' \<longrightarrow> \<not> m ! j"
  shows "marked_characters s m k = s ! k' # marked_characters s m (Suc k')"
proof -
  from assms have split: "[k..<length m] = [k..<k'] @ k' # [Suc k'..<length m]"
    by (metis le_add_diff_inverse less_imp_le_nat upt_add_eq_append upt_conv_Cons)
  from assms(4) have "filter (\<lambda>i. m ! i) [k..<k'] = []" by (auto simp: filter_empty_conv)
  with assms(3) show ?thesis by (simp add: marked_characters_def split)
qed

lemma marked_characters_unset:
  "i < length m \<Longrightarrow> \<not> m ! i \<Longrightarrow> marked_characters s m i = marked_characters s m (Suc i)"
  by (simp add: marked_characters_def upt_conv_Cons)

lemma marked_characters_set:
  "i < length m \<Longrightarrow> m ! i \<Longrightarrow> marked_characters s m i = s ! i # marked_characters s m (Suc i)"
  by (simp add: marked_characters_def upt_conv_Cons)

lemma count_transpositions_zip:
  "length m1 = length s1 \<Longrightarrow> marked (drop i m1) \<le> marked (drop k m2) \<Longrightarrow>
   count_transpositions s1 s2 m1 m2 i k tr =
     Some (tr + length (filter (\<lambda>(a, b). a \<noteq> b)
                          (zip (marked_characters s1 m1 i) (marked_characters s2 m2 k))))"
proof (induction s1 s2 m1 m2 i k tr rule: count_transpositions.induct)
  case (1 s1 s2 m1 m2 i k tr)
  show ?case
  proof (cases "i < length s1")
    case False
    with "1.prems" have "marked_characters s1 m1 i = []" by (simp add: marked_characters_def)
    with False show ?thesis by (subst count_transpositions.simps) simp
  next
    case True
    show ?thesis
    proof (cases "m1 ! i")
      case False
      with True "1.prems" have "marked (drop (i + 1) m1) \<le> marked (drop k m2)"
        by (simp add: marked_drop_Suc)
      with "1.IH"(1)[OF True] False "1.prems" True show ?thesis
        by (subst count_transpositions.simps) (simp add: marked_characters_unset)
    next
      case m: True
      with True "1.prems" have "0 < marked (drop k m2)" by (simp add: marked_drop_Suc)
      from skip_unmatched_finds[OF this] obtain k' where
        k': "skip_unmatched m2 k = Some k'" "marked (drop (Suc k') m2) + 1 = marked (drop k m2)"
          "k \<le> k'" "k' < length m2" "m2 ! k'" "\<forall>j. k \<le> j \<and> j < k' \<longrightarrow> \<not> m2 ! j"
        by blast
      with True m "1.prems" have le: "marked (drop (i + 1) m1) \<le> marked (drop (k' + 1) m2)"
        by (simp add: marked_drop_Suc)
      have c1: "marked_characters s1 m1 i = s1 ! i # marked_characters s1 m1 (Suc i)"
        using True m "1.prems"(1) by (simp add: marked_characters_set)
      have c2: "marked_characters s2 m2 k = s2 ! k' # marked_characters s2 m2 (Suc k')"
        by (rule marked_characters_skip[OF k'(3,4,5,6)])
      from "1.IH"(2)[OF True _ k'(1) "1.prems"(1)] m le True k'(1) show ?thesis
        by (subst count_transpositions.simps) (simp add: c1 c2)
    qed
  qed
qed

lemma common_prefix_takeWhile:
  "common_prefix s1 s2 i pfx =
     pfx + length (takeWhile (\<lambda>(a, b). a = b) (zip (drop i (take 4 s1)) (drop i (take 4 s2))))"
proof (induction s1 s2 i pfx rule: common_prefix.induct)
  case (1 s1 s2 i pfx)
  show ?case
  proof (cases "i < min (min (length s1) (length s2)) 4")
    case False
    then have "drop i (take 4 s1) = [] \<or> drop i (take 4 s2) = []" by auto
    then have "zip (drop i (take 4 s1)) (drop i (take 4 s2)) = []" by auto
    then have z: "takeWhile (\<lambda>(a, b). a = b) (zip (drop i (take 4 s1)) (drop i (take 4 s2))) = []"
      by (simp only: takeWhile.simps)
    from False have "common_prefix s1 s2 i pfx = pfx" by (subst common_prefix.simps) auto
    then show ?thesis by (simp only: z list.size add_0_right)
  next
    case True
    then have d1: "drop i (take 4 s1) = s1 ! i # drop (i + 1) (take 4 s1)"
      and d2: "drop i (take 4 s2) = s2 ! i # drop (i + 1) (take 4 s2)"
      by (simp_all flip: Cons_nth_drop_Suc)
    show ?thesis
    proof (cases "s1 ! i = s2 ! i")
      case False
      with True show ?thesis by (subst common_prefix.simps) (simp add: d1 d2)
    next
      case eq: True
      with True "1.IH" show ?thesis by (subst common_prefix.simps) (simp add: d1 d2)
    qed
  qed
qed

lemma single_characters_differ:
  assumes "length s1 = 1" "length s2 = 1" "s1 \<noteq> s2"
  shows "jaro_winkler_reference s1 s2 = 0"
proof -
  from assms obtain x y where s: "s1 = [x]" "s2 = [y]" "x \<noteq> y"
    by (cases s1; cases s2) auto
  then have "jaro_matching s1 s2 = []"
    by (simp add: jaro_matching_def jaro_window_def)
  then show ?thesis by (simp add: jaro_winkler_reference_def)
qed

lemma stringSimilarity_reference:
  assumes "s1 \<noteq> []" "s2 \<noteq> []" "s1 \<noteq> s2"
    and "find_matches s1 s2 (jaro_window s1 s2) 0
           (replicate (length s1) False, replicate (length s2) False, 0) = (m1, m2, n)"
  shows "(if n = 0 then Some 0
          else map_option (\<lambda>t. jaro_winkler (length s1) (length s2) n t (common_prefix s1 s2 0 0))
                 (count_transpositions s1 s2 m1 m2 0 0 0)) =
         Some (jaro_winkler_reference s1 s2)"
proof -
  let ?M = "jaro_matching s1 s2"
  have z: "marked (replicate (length s1) False) = 0" "marked (replicate (length s2) False) = 0"
    by (simp_all add: marked_def)
  from find_matches_invariant[OF assms(4)] z
  have inv: "length m1 = length s1" "length m2 = length s2" "marked m1 = marked m2"
    by auto
  from find_matches_reference[OF assms(4), of "[]"]
  have n: "n = length ?M"
    and m1: "\<forall>i'<length s1. m1 ! i' \<longleftrightarrow> i' \<in> fst ` set ?M"
    and m2: "\<forall>j<length s2. m2 ! j \<longleftrightarrow> j \<in> snd ` set ?M"
    by (simp_all add: jaro_matching_def)
  have c1: "marked_characters s1 m1 0 = matched_characters s1 (fst ` set ?M)"
    unfolding marked_characters_def matched_characters_def inv
    using m1 by (intro arg_cong[where f = "map (\<lambda>i. s1 ! i)"] filter_cong) auto
  have c2: "marked_characters s2 m2 0 = matched_characters s2 (snd ` set ?M)"
    unfolding marked_characters_def matched_characters_def inv
    using m2 by (intro arg_cong[where f = "map (\<lambda>i. s2 ! i)"] filter_cong) auto
  have t: "count_transpositions s1 s2 m1 m2 0 0 0 = Some (out_of_order s1 s2 ?M)"
    using count_transpositions_zip[of m1 s1 0 0 m2 s2 0] inv
    by (simp add: out_of_order_def c1 c2)
  have p: "common_prefix s1 s2 0 0 = winkler_prefix s1 s2"
    by (simp add: common_prefix_takeWhile winkler_prefix_def)
  have f: "jaro_winkler l1 l2 m k l = winkler_formula (jaro_formula m k l1 l2) l" for l1 l2 m k l
    by (simp add: jaro_winkler_def jaro_formula_def winkler_formula_def Let_def)
  show ?thesis
    by (simp add: t p n f jaro_winkler_reference_def Let_def)
qed

lemma stringSimilarity_text:
  "stringSimilarity (Text str1) (Text str2) = Some (Inr (text_similarity str1 str2))"
proof -
  define s1 where "s1 = trim (toLowerCase str1)"
  define s2 where "s2 = trim (toLowerCase str2)"
  obtain m1 m2 n where fm:
    "find_matches s1 s2 (jaro_window s1 s2) 0
       (replicate (length s1) False, replicate (length s2) False, 0) = (m1, m2, n)"
    by (metis prod_cases3)
  have w: "nat (int (max (length s1) (length s2) div 2) - 1) = jaro_window s1 s2"
    by (simp add: jaro_window_def)
  show ?thesis
  proof (cases "str1 = [] \<or> str2 = [] \<or> s1 = s2 \<or> s1 = [] \<or> s2 = []")
    case True
    then show ?thesis
      by (auto simp: stringSimilarity_def text_similarity_def Let_def
            s1_def[symmetric] s2_def[symmetric])
  next
    case False
    then have ne: "s1 \<noteq> []" "s2 \<noteq> []" "s1 \<noteq> s2" by simp_all
    show ?thesis
    proof (cases "int (max (length s1) (length s2) div 2) - 1 < 0")
      case True
      then have "max (length s1) (length s2) div 2 = 0" by linarith
      then have "max (length s1) (length s2) < 2" by (simp add: div_eq_0_iff)
      moreover from ne have "0 < length s1" "0 < length s2" by simp_all
      ultimately have "length s1 = 1" "length s2 = 1" by linarith+
      from single_characters_differ[OF this ne(3)] True False show ?thesis
        by (simp add: stringSimilarity_def text_similarity_def Let_def
              s1_def[symmetric] s2_def[symmetric])
    next
      case window: False
      from stringSimilarity_reference[OF ne fm] window False fm show ?thesis
        by (auto simp: stringSimilarity_def text_similarity_def Let_def w
              s1_def[symmetric] s2_def[symmetric] split: option.splits if_splits)
    qed
  qed
qed

lemma stringSimilarity_returns: "\<exists>r. stringSimilarity str1 str2 = Some r"
proof (cases str1)
  case (Inherited key1)
  then show ?thesis by (simp add: stringSimilarity_def)
next
  case t1: (Text text1)
  show ?thesis
  proof (cases str2)
    case (Inherited key2)
    with t1 show ?thesis by (simp add: stringSimilarity_def)
  next
    case (Text text2)
    with t1 show ?thesis by (simp add: stringSimilarity_text)
  qed
qed

lemma similarity_text: "similarity (Text str1) (Text str2) = Inr (text_similarity str1 str2)"
  by (simp add: similarity_def stringSimilarity_text)

lemma stringSimilarity_similarity: "stringSimilarity str1 str2 = Some (similarity str1 str2)"
  using stringSimilarity_returns[of str1 str2] by (auto simp: similarity_def)

lemma similarity_throws:
  "(\<exists>error. similarity str1 str2 = Inl error) \<longleftrightarrow>
   truthy str1 \<and> truthy str2 \<and> ((\<exists>key. str1 = Inherited key) \<or> (\<exists>key. str2 = Inherited key))"
  by (cases str1; cases str2) (auto simp: similarity_text, auto simp: similarity_def stringSimilarity_def)

section \<open>The weighted score\<close>

lemma calculateSimilarity_cases:
  "calculateSimilarity wine1 wine2 =
     (case similarity (region wine1) (region wine2) of
        Inl error \<Rightarrow> Inl error
      | Inr r \<Rightarrow>
          Inr (if vintage_year wine1 \<in> {None, Some 0} \<or> vintage_year wine2 \<in> {None, Some 0}
               then double_div
                      (double_add
                         (double_add
                            (double_add 0
                               (double_mul (text_similarity (name wine1) (name wine2))
                                  (round_to_double (4 / 10))))
                            (double_mul (text_similarity (vineyard wine1) (vineyard wine2))
                               (round_to_double (3 / 10))))
                         (double_mul r (round_to_double (1 / 10))))
                      (double_add
                         (double_add (double_add 0 (round_to_double (4 / 10)))
                            (round_to_double (3 / 10)))
                         (round_to_double (1 / 10)))
               else double_div
                      (double_add
                         (double_add
                            (double_add
                               (double_add 0
                                  (double_mul (text_similarity (name wine1) (name wine2))
                                     (round_to_double (4 / 10))))
                               (double_mul (text_similarity (vineyard wine1) (vineyard wine2))
                                  (round_to_double (3 / 10))))
                            (double_mul (if vintage_year wine1 = vintage_year wine2 then 1 else 0)
                               (round_to_double (2 / 10))))
                         (double_mul r (round_to_double (1 / 10))))
                      (double_add
                         (double_add
                            (double_add (double_add 0 (round_to_double (4 / 10)))
                               (round_to_double (3 / 10)))
                            (round_to_double (2 / 10)))
                         (round_to_double (1 / 10)))))"
proof -
  have w3: "double_add
              (double_add (double_add 0 (round_to_double (4 / 10))) (round_to_double (3 / 10)))
              (round_to_double (1 / 10)) = 7205759403792793 / 9007199254740992"
    by code_simp
  have w4: "double_add
              (double_add
                 (double_add (double_add 0 (round_to_double (4 / 10))) (round_to_double (3 / 10)))
                 (round_to_double (2 / 10)))
              (round_to_double (1 / 10)) = 9007199254740991 / 9007199254740992"
    by code_simp
  have p3: "0 < double_add
              (double_add (double_add 0 (round_to_double (4 / 10))) (round_to_double (3 / 10)))
              (round_to_double (1 / 10))"
    unfolding w3 by simp
  have p4: "0 < double_add
              (double_add
                 (double_add (double_add 0 (round_to_double (4 / 10))) (round_to_double (3 / 10)))
                 (round_to_double (2 / 10)))
              (round_to_double (1 / 10))"
    unfolding w4 by simp
  show ?thesis
    using p3 p4 unfolding calculateSimilarity_def similarity_text Let_def sum.case
    by (cases "vintage_year wine1"; cases "vintage_year wine2";
        cases "similarity (region wine1) (region wine2)") simp_all
qed

lemma isDuplicate_text:
  "region wine1 = Text r1 \<Longrightarrow> region wine2 = Text r2 \<Longrightarrow> \<exists>d. isDuplicate wine1 wine2 = Inr d"
  by (simp add: isDuplicate_def calculateSimilarity_cases similarity_text)

lemma isDuplicate_throws:
  "(\<exists>error. isDuplicate wine1 wine2 = Inl error) \<longleftrightarrow>
   (\<exists>error. similarity (region wine1) (region wine2) = Inl error)"
  by (cases "similarity (region wine1) (region wine2)")
     (simp_all add: isDuplicate_def calculateSimilarity_cases)

section \<open>The loop of \<open>removeDuplicates\<close>\<close>

lemma some_duplicate_Inr:
  "some_duplicate w u = Inr d \<Longrightarrow>
   (d \<longleftrightarrow> (\<exists>e\<in>set u. isDuplicate w e = Inr True)) \<and>
   (\<not> d \<longrightarrow> (\<forall>e\<in>set u. isDuplicate w e = Inr False))"
proof (induction u)
  case Nil
  then show ?case by simp
next
  case (Cons e u)
  then show ?case by (cases "isDuplicate w e") (auto split: if_splits)
qed

lemma some_duplicate_False:
  "(\<forall>e\<in>set u. isDuplicate w e = Inr False) \<Longrightarrow> some_duplicate w u = Inr False"
  by (induction u) simp_all

lemma some_duplicate_returns:
  "(\<forall>e\<in>set u. \<exists>d. isDuplicate w e = Inr d) \<Longrightarrow> \<exists>d. some_duplicate w u = Inr d"
proof (induction u)
  case Nil
  show ?case by (rule exI[of _ False]) simp
next
  case (Cons e u)
  then obtain d where d: "isDuplicate w e = Inr d" by auto
  show ?case
  proof (cases d)
    case True
    with d show ?thesis by auto
  next
    case False
    from Cons.IH Cons.prems obtain d' where "some_duplicate w u = Inr d'" by auto
    with d False show ?thesis by auto
  qed
qed

lemma loop_append:
  "removeDuplicates_loop u (xs @ ys) =
     (case removeDuplicates_loop u xs of
        Inl error \<Rightarrow> Inl error
      | Inr kept \<Rightarrow> removeDuplicates_loop kept ys)"
proof (induction xs arbitrary: u)
  case Nil
  then show ?case by simp
next
  case (Cons x xs)
  then show ?case by (cases "some_duplicate x u") simp_all
qed

lemma loop_extends:
  "removeDuplicates_loop u xs = Inr out \<Longrightarrow> \<exists>r. out = u @ r \<and> subseq r xs"
proof (induction xs arbitrary: u)
  case Nil
  then show ?case by simp
next
  case (Cons x xs)
  from Cons.prems obtain d where d: "some_duplicate x u = Inr d"
    by (cases "some_duplicate x u") simp_all
  show ?case
  proof (cases d)
    case True
    with d Cons.prems have "removeDuplicates_loop u xs = Inr out" by simp
    from Cons.IH[OF this] show ?thesis by auto
  next
    case False
    with d Cons.prems have "removeDuplicates_loop (u @ [x]) xs = Inr out" by simp
    from Cons.IH[OF this] show ?thesis by auto
  qed
qed

lemma removeDuplicates_snoc:
  "removeDuplicates (xs @ [w]) =
     (case removeDuplicates xs of
        Inl error \<Rightarrow> Inl error
      | Inr kept \<Rightarrow>
          (case some_duplicate w kept of
             Inl error \<Rightarrow> Inl error
           | Inr d \<Rightarrow> Inr (if d then kept else kept @ [w])))"
  by (simp add: removeDuplicates_def loop_append split: sum.splits)

lemma removeDuplicates_append:
  "removeDuplicates (xs @ ys) =
     (case removeDuplicates xs of
        Inl error \<Rightarrow> Inl error
      | Inr kept \<Rightarrow> removeDuplicates_loop kept ys)"
  by (simp add: removeDuplicates_def loop_append)

lemma loop_keeps_all:
  "(\<And>a x b. xs = a @ x # b \<Longrightarrow> some_duplicate x (u @ a) = Inr False) \<Longrightarrow>
   removeDuplicates_loop u xs = Inr (u @ xs)"
proof (induction xs arbitrary: u)
  case Nil
  then show ?case by simp
next
  case (Cons x xs)
  from Cons.prems[of "[]" x xs] have nd: "some_duplicate x u = Inr False" by simp
  have "removeDuplicates_loop (u @ [x]) xs = Inr ((u @ [x]) @ xs)"
  proof (rule Cons.IH)
    fix a y b assume "xs = a @ y # b"
    then have "x # xs = (x # a) @ y # b" by simp
    from Cons.prems[OF this] show "some_duplicate y ((u @ [x]) @ a) = Inr False" by simp
  qed
  with nd show ?case by simp
qed

lemma loop_no_dups:
  "removeDuplicates_loop u xs = Inr (u @ r) \<Longrightarrow> r = a @ x # b \<Longrightarrow>
   some_duplicate x (u @ a) = Inr False"
proof (induction xs arbitrary: u r a)
  case Nil
  then show ?case by simp
next
  case (Cons y ys)
  from Cons.prems(1) obtain d where d: "some_duplicate y u = Inr d"
    by (cases "some_duplicate y u") simp_all
  show ?case
  proof (cases d)
    case True
    with d Cons.prems have "removeDuplicates_loop u ys = Inr (u @ r)" by simp
    from Cons.IH[OF this Cons.prems(2)] show ?thesis .
  next
    case False
    with d Cons.prems have run: "removeDuplicates_loop (u @ [y]) ys = Inr (u @ r)" by simp
    from loop_extends[OF run] obtain r' where r': "u @ r = (u @ [y]) @ r'" by blast
    then have r: "r = y # r'" by simp
    show ?thesis
    proof (cases a)
      case Nil
      with r Cons.prems(2) False d show ?thesis by simp
    next
      case (Cons a0 a')
      with r \<open>r = a @ x # b\<close> have split: "r' = a' @ x # b" "a0 = y" by simp_all
      from run r have "removeDuplicates_loop (u @ [y]) ys = Inr ((u @ [y]) @ r')" by simp
      from Cons.IH[OF this split(1)] split(2) Cons show ?thesis by simp
    qed
  qed
qed

lemma removeDuplicates_no_dups:
  "removeDuplicates xs = Inr (a @ x # b) \<Longrightarrow> \<forall>e\<in>set a. isDuplicate x e = Inr False"
  using loop_no_dups[of "[]" xs "a @ x # b" a x b] some_duplicate_Inr[of x a False]
  by (simp add: removeDuplicates_def)

lemma removeDuplicates_idem:
  assumes "removeDuplicates xs = Inr out"
  shows "removeDuplicates out = Inr out"
proof -
  from assms have r: "removeDuplicates_loop [] xs = Inr ([] @ out)"
    by (simp add: removeDuplicates_def)
  have "removeDuplicates_loop [] out = Inr ([] @ out)"
    by (rule loop_keeps_all) (use loop_no_dups[OF r] in auto)
  then show ?thesis by (simp add: removeDuplicates_def)
qed

lemma removeDuplicates_subseq: "removeDuplicates xs = Inr out \<Longrightarrow> subseq out xs"
  using loop_extends[of "[]" xs out] by (auto simp: removeDuplicates_def)

lemma removeDuplicates_Cons: "removeDuplicates (w # ws) = Inr out \<Longrightarrow> \<exists>rest. out = w # rest"
  using loop_extends[of "[w]" ws out] by (auto simp: removeDuplicates_def)

lemma removeDuplicates_position:
  assumes w: "results = pre @ x # post" and run: "removeDuplicates results = Inr out"
  shows "\<exists>kept. removeDuplicates pre = Inr kept \<and>
           ((\<exists>e\<in>set kept. isDuplicate x e = Inr True) \<or> (\<exists>rest. out = kept @ x # rest))"
proof -
  from run w obtain kept where kept: "removeDuplicates pre = Inr kept"
    and rest: "removeDuplicates_loop kept (x # post) = Inr out"
    by (cases "removeDuplicates pre") (simp_all add: removeDuplicates_append)
  from rest obtain d where d: "some_duplicate x kept = Inr d"
    by (cases "some_duplicate x kept") simp_all
  show ?thesis
  proof (cases d)
    case True
    with some_duplicate_Inr[OF d] kept show ?thesis by blast
  next
    case False
    with d rest have "removeDuplicates_loop (kept @ [x]) post = Inr out" by simp
    from loop_extends[OF this] kept show ?thesis by auto
  qed
qed

lemma loop_returns:
  "(\<forall>w\<in>set u \<union> set xs. \<exists>r. region w = Text r) \<Longrightarrow> \<exists>out. removeDuplicates_loop u xs = Inr out"
proof (induction xs arbitrary: u)
  case Nil
  then show ?case by simp
next
  case (Cons x xs)
  have "\<forall>e\<in>set u. \<exists>d. isDuplicate x e = Inr d"
    using Cons.prems isDuplicate_text by (metis UnCI list.set_intros(1))
  from some_duplicate_returns[OF this] obtain d where d: "some_duplicate x u = Inr d" ..
  show ?case
  proof (cases d)
    case True
    with d Cons.IH[of u] Cons.prems show ?thesis by simp
  next
    case False
    with d Cons.IH[of "u @ [x]"] Cons.prems show ?thesis by simp
  qed
qed

lemma removeDuplicates_returns:
  "(\<forall>w\<in>set xs. \<exists>r. region w = Text r) \<Longrightarrow> \<exists>out. removeDuplicates xs = Inr out"
  using loop_returns[of "[]" xs] by (simp add: removeDuplicates_def)

section \<open>Similarity score and duplicates\<close>

text \<open>
  C1. For every pair of search results, the calls of \<open>stringSimilarity\<close> on the names and
  on the vineyards return the Jaro-Winkler similarity of the two texts (\<open>text_similarity\<close>,
  defined from the matching, the transpositions and the common prefix, not from the loops
  of the source), and so does the call on the regions when both regions are strings.
  \<open>calculateSimilarity\<close> returns the weighted score: these similarities with the weights
  0.4, 0.3 and 0.1, plus 0.2 times the equality of the vintage years when both years are
  present and not zero, divided by the sum of the weights used, each operation being the
  binary64 operation of the source; it throws what the call on the regions throws.
  \<open>isDuplicate\<close> holds exactly when the score exceeds the double 0.8; \<open>removeDuplicates\<close>
  drops a result exactly when it is a duplicate of a result kept before it.
\<close>

theorem calculateSimilarity_weighted_score:
  "stringSimilarity (Text (name wine1)) (Text (name wine2)) =
     Some (Inr (text_similarity (name wine1) (name wine2))) \<and>
   stringSimilarity (Text (vineyard wine1)) (Text (vineyard wine2)) =
     Some (Inr (text_similarity (vineyard wine1) (vineyard wine2))) \<and>
   (\<forall>r1 r2. region wine1 = Text r1 \<and> region wine2 = Text r2 \<longrightarrow>
      stringSimilarity (region wine1) (region wine2) = Some (Inr (text_similarity r1 r2))) \<and>
   (\<exists>outcome.
      stringSimilarity (region wine1) (region wine2) = Some outcome \<and>
      calculateSimilarity wine1 wine2 =
        (case outcome of
           Inl error \<Rightarrow> Inl error
         | Inr r \<Rightarrow>
             Inr (if vintage_year wine1 \<in> {None, Some 0} \<or> vintage_year wine2 \<in> {None, Some 0}
                  then double_div
                         (double_add
                            (double_add
                               (double_add 0
                                  (double_mul (text_similarity (name wine1) (name wine2))
                                     (round_to_double (4 / 10))))
                               (double_mul (text_similarity (vineyard wine1) (vineyard wine2))
                                  (round_to_double (3 / 10))))
                            (double_mul r (round_to_double (1 / 10))))
                         (double_add
                            (double_add (double_add 0 (round_to_double (4 / 10)))
                               (round_to_double (3 / 10)))
                            (round_to_double (1 / 10)))
                  else double_div
                         (double_add
                            (double_add
                               (double_add
                                  (double_add 0
                                     (double_mul (text_similarity (name wine1) (name wine2))
                                        (round_to_double (4 / 10))))
                                  (double_mul (text_similarity (vineyard wine1) (vineyard wine2))
                                     (round_to_double (3 / 10))))
                               (double_mul
                                  (if vintage_year wine1 = vintage_year wine2 then 1 else 0)
                                  (round_to_double (2 / 10))))
                            (double_mul r (round_to_double (1 / 10))))
                         (double_add
                            (double_add
                               (double_add (double_add 0 (round_to_double (4 / 10)))
                                  (round_to_double (3 / 10)))
                               (round_to_double (2 / 10)))
                            (round_to_double (1 / 10)))))) \<and>
   isDuplicate wine1 wine2 =
     (case calculateSimilarity wine1 wine2 of
        Inl error \<Rightarrow> Inl error
      | Inr score \<Rightarrow> Inr (score > round_to_double (8 / 10))) \<and>
   removeDuplicates [] = Inr [] \<and>
   removeDuplicates (results @ [wine1]) =
     (case removeDuplicates results of
        Inl error \<Rightarrow> Inl error
      | Inr kept \<Rightarrow>
          (case some_duplicate wine1 kept of
             Inl error \<Rightarrow> Inl error
           | Inr dupe \<Rightarrow> Inr (if dupe then kept else kept @ [wine1]))) \<and>
   (\<forall>kept dupe. some_duplicate wine1 kept = Inr dupe \<longrightarrow>
      (dupe \<longleftrightarrow> (\<exists>existing\<in>set kept. isDuplicate wine1 existing = Inr True)))"
proof -
  have t: "\<forall>r1 r2. region wine1 = Text r1 \<and> region wine2 = Text r2 \<longrightarrow>
      stringSimilarity (region wine1) (region wine2) = Some (Inr (text_similarity r1 r2))"
    by (simp add: stringSimilarity_text)
  have s: "\<forall>kept dupe. some_duplicate wine1 kept = Inr dupe \<longrightarrow>
      (dupe \<longleftrightarrow> (\<exists>existing\<in>set kept. isDuplicate wine1 existing = Inr True))"
    using some_duplicate_Inr by blast
  have d: "isDuplicate wine1 wine2 =
     (case calculateSimilarity wine1 wine2 of
        Inl error \<Rightarrow> Inl error
      | Inr score \<Rightarrow> Inr (score > round_to_double (8 / 10)))"
    by (simp only: isDuplicate_def)
  have e: "removeDuplicates [] = Inr []" by (simp add: removeDuplicates_def)
  show ?thesis
    apply (intro conjI)
           apply (rule stringSimilarity_text)
          apply (rule stringSimilarity_text)
         apply (rule t)
        apply (rule exI[of _ "similarity (region wine1) (region wine2)"])
        apply (rule conjI[OF stringSimilarity_similarity calculateSimilarity_cases])
       apply (rule d)
      apply (rule e)
     apply (rule removeDuplicates_snoc)
    apply (rule s)
    done
qed

theorem calculateSimilarity_weighted_score_witness:
  "stringSimilarity (Text ''Opus One 2015'') (Text ''Opus One  2015'') =
     Some (Inr (554907811229579 / 562949953421312)) \<and>
   calculateSimilarity opus_a opus_b = Inr (8861741378577475 / 9007199254740992) \<and>
   isDuplicate opus_a opus_b = Inr True \<and>
   removeDuplicates ([opus_b] @ [opus_a]) = Inr [opus_b] \<and>
   calculateSimilarity opus_a tignanello = Inr (5158488700057859 / 18014398509481984) \<and>
   isDuplicate opus_a tignanello = Inr False \<and>
   calculateSimilarity threshold_a threshold_b = Inr (7205759403792795 / 9007199254740992) \<and>
   round_to_double (8 / 10) = 7205759403792794 / 9007199254740992 \<and>
   isDuplicate threshold_a threshold_b = Inr True"
proof -
  have c08: "round_to_double (8 / 10) = 7205759403792794 / 9007199254740992" by code_simp
  have n: "text_similarity ''Opus One 2015'' ''Opus One  2015'' = 554907811229579 / 562949953421312"
    by code_simp
  have names: "name opus_a = ''Opus One 2015''" "name opus_b = ''Opus One  2015''"
    by (simp_all add: opus_a_def opus_b_def sample_wine_def)
  note ab = calculateSimilarity_weighted_score[of opus_a opus_b "[opus_b]"]
  note at = calculateSimilarity_weighted_score[of opus_a tignanello "[]"]
  note th = calculateSimilarity_weighted_score[of threshold_a threshold_b "[]"]
  from ab have "stringSimilarity (Text (name opus_a)) (Text (name opus_b)) =
      Some (Inr (text_similarity (name opus_a) (name opus_b)))"
    by (rule conjunct1)
  then have one: "stringSimilarity (Text ''Opus One 2015'') (Text ''Opus One  2015'') =
      Some (Inr (554907811229579 / 562949953421312))"
    by (simp only: names n)
  have s1: "calculateSimilarity opus_a opus_b = Inr (8861741378577475 / 9007199254740992)"
    by code_simp
  have s2: "calculateSimilarity opus_a tignanello = Inr (5158488700057859 / 18014398509481984)"
    by code_simp
  have s3: "calculateSimilarity threshold_a threshold_b = Inr (7205759403792795 / 9007199254740992)"
    by code_simp
  from ab have "isDuplicate opus_a opus_b =
     (case calculateSimilarity opus_a opus_b of
        Inl error \<Rightarrow> Inl error
      | Inr score \<Rightarrow> Inr (score > round_to_double (8 / 10)))"
    by blast
  then have d1: "isDuplicate opus_a opus_b = Inr True" unfolding s1 c08 by simp
  from at have "isDuplicate opus_a tignanello =
     (case calculateSimilarity opus_a tignanello of
        Inl error \<Rightarrow> Inl error
      | Inr score \<Rightarrow> Inr (score > round_to_double (8 / 10)))"
    by blast
  then have d2: "isDuplicate opus_a tignanello = Inr False" unfolding s2 c08 by simp
  from th have "isDuplicate threshold_a threshold_b =
     (case calculateSimilarity threshold_a threshold_b of
        Inl error \<Rightarrow> Inl error
      | Inr score \<Rightarrow> Inr (score > round_to_double (8 / 10)))"
    by blast
  then have d3: "isDuplicate threshold_a threshold_b = Inr True" unfolding s3 c08 by simp
  from ab have "removeDuplicates ([opus_b] @ [opus_a]) =
     (case removeDuplicates [opus_b] of
        Inl error \<Rightarrow> Inl error
      | Inr kept \<Rightarrow>
          (case some_duplicate opus_a kept of
             Inl error \<Rightarrow> Inl error
           | Inr dupe \<Rightarrow> Inr (if dupe then kept else kept @ [opus_a])))"
    by blast
  moreover have "removeDuplicates [opus_b] = Inr [opus_b]" by (simp add: removeDuplicates_def)
  ultimately have r: "removeDuplicates ([opus_b] @ [opus_a]) = Inr [opus_b]"
    using d1 by simp
  from one s1 d1 r s2 d2 s3 c08 d3 show ?thesis by (intro conjI)
qed

text \<open>
  C10. \<open>removeDuplicates\<close> returns whenever the regions of its input are strings (a region
  that is an object makes a comparison throw). What it returns is a sublist of its input
  in the input's order; the first element of the input is always kept; an element is
  dropped only when a result kept before it is its duplicate, and otherwise it is kept
  right after the results kept before it, so the first member of every group of duplicates
  is kept; no kept result is a duplicate of a result kept before it; and \<open>removeDuplicates\<close>
  applied to its own output returns that output.
\<close>

theorem removeDuplicates_sublist_idempotent:
  "(\<forall>out. removeDuplicates results = Inr out \<longrightarrow>
      subseq out results \<and>
      (\<forall>pre x post. results = pre @ x # post \<longrightarrow>
         (\<exists>kept. removeDuplicates pre = Inr kept \<and>
            ((\<exists>e\<in>set kept. isDuplicate x e = Inr True) \<or> (\<exists>rest. out = kept @ x # rest)))) \<and>
      (\<forall>kept x later. out = kept @ x # later \<longrightarrow> (\<forall>e\<in>set kept. isDuplicate x e = Inr False)) \<and>
      removeDuplicates out = Inr out) \<and>
   (\<forall>out. removeDuplicates (first # results) = Inr out \<longrightarrow> (\<exists>rest. out = first # rest)) \<and>
   ((\<forall>w\<in>set results. \<exists>r. region w = Text r) \<longrightarrow> (\<exists>out. removeDuplicates results = Inr out))"
proof -
  have a: "subseq out results \<and>
      (\<forall>pre x post. results = pre @ x # post \<longrightarrow>
         (\<exists>kept. removeDuplicates pre = Inr kept \<and>
            ((\<exists>e\<in>set kept. isDuplicate x e = Inr True) \<or> (\<exists>rest. out = kept @ x # rest)))) \<and>
      (\<forall>kept x later. out = kept @ x # later \<longrightarrow> (\<forall>e\<in>set kept. isDuplicate x e = Inr False)) \<and>
      removeDuplicates out = Inr out"
    if run: "removeDuplicates results = Inr out" for out
  proof (intro conjI allI impI)
    show "subseq out results" by (rule removeDuplicates_subseq[OF run])
    show "removeDuplicates out = Inr out" by (rule removeDuplicates_idem[OF run])
  next
    fix pre x post assume "results = pre @ x # post"
    from removeDuplicates_position[OF this run]
    show "\<exists>kept. removeDuplicates pre = Inr kept \<and>
            ((\<exists>e\<in>set kept. isDuplicate x e = Inr True) \<or> (\<exists>rest. out = kept @ x # rest))" .
  next
    fix kept x later assume "out = kept @ x # later"
    with run have "removeDuplicates results = Inr (kept @ x # later)" by simp
    from removeDuplicates_no_dups[OF this]
    show "\<forall>e\<in>set kept. isDuplicate x e = Inr False" .
  qed
  have b: "\<forall>out. removeDuplicates (first # results) = Inr out \<longrightarrow> (\<exists>rest. out = first # rest)"
    using removeDuplicates_Cons by blast
  have c: "(\<forall>w\<in>set results. \<exists>r. region w = Text r) \<longrightarrow> (\<exists>out. removeDuplicates results = Inr out)"
    using removeDuplicates_returns by blast
  from a b c show ?thesis by blast
qed

theorem removeDuplicates_sublist_idempotent_witness:
  "removeDuplicates [opus_a, opus_b, tignanello] = Inr [opus_a, tignanello] \<and>
   subseq [opus_a, tignanello] [opus_a, opus_b, tignanello] \<and>
   isDuplicate opus_b opus_a = Inr True \<and>
   isDuplicate tignanello opus_a = Inr False \<and>
   removeDuplicates [opus_a, tignanello] = Inr [opus_a, tignanello]"
proof -
  have run: "removeDuplicates [opus_a, opus_b, tignanello] = Inr [opus_a, tignanello]"
    by code_simp
  have one: "removeDuplicates [opus_a] = Inr [opus_a]"
    by (simp add: removeDuplicates_def)
  have differ: "opus_b \<noteq> tignanello" "opus_a \<noteq> opus_b"
    by (simp_all add: opus_a_def opus_b_def tignanello_def sample_wine_def)
  note inst = removeDuplicates_sublist_idempotent[of "[opus_a, opus_b, tignanello]" opus_a]
  from inst run have all: "subseq [opus_a, tignanello] [opus_a, opus_b, tignanello] \<and>
      (\<forall>pre x post. [opus_a, opus_b, tignanello] = pre @ x # post \<longrightarrow>
         (\<exists>kept. removeDuplicates pre = Inr kept \<and>
            ((\<exists>e\<in>set kept. isDuplicate x e = Inr True) \<or>
             (\<exists>rest. [opus_a, tignanello] = kept @ x # rest)))) \<and>
      (\<forall>kept x later. [opus_a, tignanello] = kept @ x # later \<longrightarrow>
         (\<forall>e\<in>set kept. isDuplicate x e = Inr False)) \<and>
      removeDuplicates [opus_a, tignanello] = Inr [opus_a, tignanello]"
    by blast
  then have sub: "subseq [opus_a, tignanello] [opus_a, opus_b, tignanello]"
    and idem: "removeDuplicates [opus_a, tignanello] = Inr [opus_a, tignanello]"
    by blast+
  from all have "[opus_a, opus_b, tignanello] = [opus_a] @ opus_b # [tignanello] \<longrightarrow>
      (\<exists>kept. removeDuplicates [opus_a] = Inr kept \<and>
         ((\<exists>e\<in>set kept. isDuplicate opus_b e = Inr True) \<or>
          (\<exists>rest. [opus_a, tignanello] = kept @ opus_b # rest)))"
    by blast
  with one differ have dup: "isDuplicate opus_b opus_a = Inr True" by auto
  from all have "[opus_a, tignanello] = [opus_a] @ tignanello # [] \<longrightarrow>
      (\<forall>e\<in>set [opus_a]. isDuplicate tignanello e = Inr False)"
    by blast
  then have nodup: "isDuplicate tignanello opus_a = Inr False" by simp
  from run sub idem dup nodup show ?thesis by simp
qed

section \<open>Rating scales\<close>

text \<open>
  C3, as amended. For a source other than \<open>vivino\<close> and \<open>wine_api\<close> (or none),
  \<open>normalizeRating\<close> multiplies a rating in [1,5] by 20 and rounds it, rounds a rating in
  (5,100], and returns \<open>undefined\<close> for every other rating; for \<open>vivino\<close> a rating in [1,5]
  is multiplied by 20 and rounded, and for \<open>wine_api\<close> a rating in [1,100] is rounded; both
  sources give \<open>undefined\<close> outside their range. A missing rating gives \<open>undefined\<close>.
\<close>

theorem normalizeRating_scales:
  "normalizeRating None src = None \<and>
   normalizeRating (Some r) (Some ''vivino'') =
     (if 1 \<le> r \<and> r \<le> 5 then Some (of_int (Math_round (r * 20))) else None) \<and>
   normalizeRating (Some r) (Some ''wine_api'') =
     (if 1 \<le> r \<and> r \<le> 100 then Some (of_int (Math_round r)) else None) \<and>
   (src \<noteq> Some ''vivino'' \<and> src \<noteq> Some ''wine_api'' \<longrightarrow>
      normalizeRating (Some r) src =
        (if 1 \<le> r \<and> r \<le> 5 then Some (of_int (Math_round (r * 20)))
         else if 5 < r \<and> r \<le> 100 then Some (of_int (Math_round r))
         else None))"
  by (auto simp: normalizeRating_def)

theorem normalizeRating_scales_witness:
  "normalizeRating (Some (9 / 2)) None = Some 90 \<and>
   normalizeRating (Some (433 / 100)) (Some ''manual'') = Some 87 \<and>
   normalizeRating (Some (175 / 2)) None = Some 88 \<and>
   normalizeRating (Some (1 / 2)) None = None \<and>
   normalizeRating (Some 4) (Some ''vivino'') = Some 80 \<and>
   normalizeRating (Some 92) (Some ''vivino'') = None \<and>
   normalizeRating (Some 92) (Some ''wine_api'') = Some 92"
proof -
  have r: "Math_round (9 / 2 * 20) = 90" "Math_round (433 / 100 * 20) = 87"
    "Math_round (175 / 2) = 88" "Math_round (4 * 20) = 80" "Math_round 92 = 92"
    by code_simp+
  from r normalizeRating_scales[of None "9 / 2"]
    normalizeRating_scales[of "Some ''manual''" "433 / 100"]
    normalizeRating_scales[of None "175 / 2"] normalizeRating_scales[of None "1 / 2"]
    normalizeRating_scales[of None 4] normalizeRating_scales[of None 92]
  show ?thesis by simp
qed

text \<open>
  C3 as stated fails: with no source, the rating 150 is not in [1,5], and it is not kept
  as a rating of the 100-point scale; the result is \<open>undefined\<close>.
\<close>

theorem normalizeRating_out_of_range_counterexample:
  "normalizeRating (Some 150) None = None \<and>
   normalizeRating (Some 150) None \<noteq> Some (of_int (Math_round 150))"
  by (simp add: normalizeRating_def)

section \<open>Normalization and the clock\<close>

lemma normalizeVintage_years:
  "(\<forall>y. v = Some y \<longrightarrow> (y \<le> year1 \<longleftrightarrow> y \<le> year2)) \<Longrightarrow>
   normalizeVintage year1 v = normalizeVintage year2 v"
  by (cases v) (auto simp: normalizeVintage_def)

lemma map_throwing_cong:
  "(\<And>x. x \<in> set xs \<Longrightarrow> f x = g x) \<Longrightarrow> map_throwing f xs = map_throwing g xs"
  by (induction xs) (simp_all split: sum.splits)

text \<open>
  C8, as amended. The outcome of \<open>normalizeWineData\<close> on each element followed by
  \<open>removeDuplicates\<close> (the list returned, or the error thrown) is a function of the input
  list and of the calendar year the clock shows; it reads nothing else (no request counter,
  no other state). Two evaluations give equal outcomes when they run in the same year, and
  more generally whenever no vintage year of the input lies after one of the two years and
  not after the other.
\<close>

theorem normalization_depends_on_year_only:
  assumes "\<forall>w\<in>set results. \<forall>y. vintage_year w = Some y \<longrightarrow> (y \<le> year1 \<longleftrightarrow> y \<le> year2)"
  shows "(case map_throwing (normalizeWineData year1) results of
            Inl error \<Rightarrow> Inl error
          | Inr normalizedResults \<Rightarrow> removeDuplicates normalizedResults) =
         (case map_throwing (normalizeWineData year2) results of
            Inl error \<Rightarrow> Inl error
          | Inr normalizedResults \<Rightarrow> removeDuplicates normalizedResults)"
proof -
  have "normalizeWineData year1 w = normalizeWineData year2 w" if "w \<in> set results" for w
    using that assms normalizeVintage_years[of "vintage_year w" year1 year2]
    by (simp add: normalizeWineData_def split: sum.splits)
  then have "map_throwing (normalizeWineData year1) results =
             map_throwing (normalizeWineData year2) results"
    by (rule map_throwing_cong)
  then show ?thesis by (simp only:)
qed

theorem normalization_depends_on_year_only_witness:
  "(case map_throwing (normalizeWineData 2025) [opus_a, tignanello] of
      Inl error \<Rightarrow> Inl error
    | Inr normalizedResults \<Rightarrow> removeDuplicates normalizedResults) =
   (case map_throwing (normalizeWineData 2026) [opus_a, tignanello] of
      Inl error \<Rightarrow> Inl error
    | Inr normalizedResults \<Rightarrow> removeDuplicates normalizedResults)"
  using normalization_depends_on_year_only[of "[opus_a, tignanello]" 2025 2026]
  by (simp add: opus_a_def tignanello_def sample_wine_def)

text \<open>
  C8 as stated fails: the routine reads the clock. A result with vintage year 2026 loses
  the year when normalized in 2025 and keeps it when normalized in 2026.
\<close>

theorem normalization_reads_clock_counterexample:
  "(case map_throwing (normalizeWineData 2025) [future_wine] of
      Inl error \<Rightarrow> Inl error
    | Inr normalizedResults \<Rightarrow> removeDuplicates normalizedResults) \<noteq>
   (case map_throwing (normalizeWineData 2026) [future_wine] of
      Inl error \<Rightarrow> Inl error
    | Inr normalizedResults \<Rightarrow> removeDuplicates normalizedResults)"
  by code_simp

section \<open>Retry with backoff\<close>

lemma retry_unrolled:
  "retryWithExponentialBackoff operation w =
     (case operation 0 w of
        (Inr v, w1) \<Rightarrow> (Inr v, w1)
      | (Inl e1, w1) \<Rightarrow>
          if isNonRetryableError e1 then (Inl e1, w1)
          else (case operation 1 (sleep 1000 w1) of
                  (Inr v, w2) \<Rightarrow> (Inr v, w2)
                | (Inl e2, w2) \<Rightarrow>
                    if isNonRetryableError e2 then (Inl e2, w2)
                    else (case operation 2 (sleep 2000 w2) of
                            (Inr v, w3) \<Rightarrow> (Inr v, w3)
                          | (Inl e3, w3) \<Rightarrow> (Inl e3, w3))))"
proof -
  have three: "retry_loop operation 3 e u = (Inl e, u)" for e u
    by (subst retry_loop.simps) (simp add: MAX_RETRIES_def)
  have two: "retry_loop operation 2 e u =
      (case operation 2 u of (Inr v, w3) \<Rightarrow> (Inr v, w3) | (Inl e3, w3) \<Rightarrow> (Inl e3, w3))" for e u
    by (subst retry_loop.simps) (simp add: MAX_RETRIES_def three split: prod.splits sum.splits)
  have one: "retry_loop operation 1 e u =
      (case operation 1 u of
         (Inr v, w2) \<Rightarrow> (Inr v, w2)
       | (Inl e2, w2) \<Rightarrow>
           if isNonRetryableError e2 then (Inl e2, w2)
           else retry_loop operation 2 e2 (sleep 2000 w2))" for e u
    by (subst retry_loop.simps)
       (simp add: MAX_RETRIES_def RETRY_DELAYS_def numeral_2_eq_2 split: prod.splits sum.splits)
  have zero: "retry_loop operation 0 e u =
      (case operation 0 u of
         (Inr v, w1) \<Rightarrow> (Inr v, w1)
       | (Inl e1, w1) \<Rightarrow>
           if isNonRetryableError e1 then (Inl e1, w1)
           else retry_loop operation 1 e1 (sleep 1000 w1))" for e u
    by (subst retry_loop.simps)
       (simp add: MAX_RETRIES_def RETRY_DELAYS_def split: prod.splits sum.splits)
  show ?thesis
    unfolding retryWithExponentialBackoff_def zero one two
    by (simp split: prod.splits sum.splits)
qed

text \<open>
  C2, as amended. An error is non-retryable when its code is ENOTFOUND or ECONNREFUSED, or
  when its status is 403 or 404 and its message does not contain \<open>Navigation timeout\<close>. An
  attempt that fails with a non-retryable error ends the call with that error, with no
  wait and no further attempt. Otherwise the operation is attempted at most three times:
  after a first retryable failure the call waits 1000 ms and tries again, after a second
  2000 ms, and a third failure is thrown with no wait (the entry 4000 of the schedule is
  never reached). A successful attempt returns its value at once.
\<close>

theorem retry_backoff_schedule:
  "(isNonRetryableError (Error_object c m st) \<longleftrightarrow>
      c = Some ''ENOTFOUND'' \<or> c = Some ''ECONNREFUSED'' \<or>
      (\<not> (\<exists>text. m = Some text \<and> js_includes text ''Navigation timeout'') \<and>
       (st = Some 403 \<or> st = Some 404))) \<and>
   \<not> isNonRetryableError Undefined_value \<and>
   retryWithExponentialBackoff operation w =
     (case operation 0 w of
        (Inr v, w1) \<Rightarrow> (Inr v, w1)
      | (Inl e1, w1) \<Rightarrow>
          if isNonRetryableError e1 then (Inl e1, w1)
          else (case operation 1 (sleep 1000 w1) of
                  (Inr v, w2) \<Rightarrow> (Inr v, w2)
                | (Inl e2, w2) \<Rightarrow>
                    if isNonRetryableError e2 then (Inl e2, w2)
                    else (case operation 2 (sleep 2000 w2) of
                            (Inr v, w3) \<Rightarrow> (Inr v, w3)
                          | (Inl e3, w3) \<Rightarrow> (Inl e3, w3))))"
proof -
  have "isNonRetryableError (Error_object c m st) \<longleftrightarrow>
      c = Some ''ENOTFOUND'' \<or> c = Some ''ECONNREFUSED'' \<or>
      (\<not> (\<exists>text. m = Some text \<and> js_includes text ''Navigation timeout'') \<and>
       (st = Some 403 \<or> st = Some 404))"
    by (cases m) auto
  then show ?thesis
    using retry_unrolled[of operation w] by simp
qed

lemma timeout_404_retryable: "\<not> isNonRetryableError timeout_404"
  unfolding timeout_404_def by code_simp

theorem retry_backoff_schedule_witness:
  "retryWithExponentialBackoff (always_fails dns_failure) world0 =
     (Inl dns_failure, world0\<lparr>requestCount := 1\<rparr>) \<and>
   retryWithExponentialBackoff (always_fails server_error) world0 =
     (Inl server_error, world0\<lparr>requestCount := 3, clock := 3000\<rparr>)"
proof -
  have d: "isNonRetryableError dns_failure" by (simp add: dns_failure_def)
  have s: "\<not> isNonRetryableError server_error" unfolding server_error_def by code_simp
  from d retry_backoff_schedule[of _ _ _ "always_fails dns_failure" world0]
  have one: "retryWithExponentialBackoff (always_fails dns_failure) world0 =
     (Inl dns_failure, world0\<lparr>requestCount := 1\<rparr>)"
    by (simp add: always_fails_def world0_def)
  from s retry_backoff_schedule[of _ _ _ "always_fails server_error" world0]
  have "retryWithExponentialBackoff (always_fails server_error) world0 =
     (Inl server_error, world0\<lparr>requestCount := 3, clock := 3000\<rparr>)"
    by (simp add: always_fails_def world0_def sleep_def)
  with one show ?thesis by simp
qed

text \<open>
  C2 as stated fails: an error with status 404 whose message contains
  \<open>Navigation timeout\<close> is retried. The operation is called three times and the call waits
  1000 ms and 2000 ms.
\<close>

theorem retry_status_404_timeout_counterexample:
  "status timeout_404 = Some 404 \<and>
   retryWithExponentialBackoff (always_fails timeout_404) world0 =
     (Inl timeout_404, world0\<lparr>requestCount := 3, clock := 3000\<rparr>)"
proof -
  have "retryWithExponentialBackoff (always_fails timeout_404) world0 =
     (Inl timeout_404, world0\<lparr>requestCount := 3, clock := 3000\<rparr>)"
    using timeout_404_retryable
    by (simp add: retry_unrolled always_fails_def world0_def sleep_def)
  then show ?thesis by (simp add: timeout_404_def)
qed

section \<open>The external search\<close>

lemma searchWine_fst:
  "fst (searchWine currentYear pages options w) =
     (case map_throwing (normalizeWineData currentYear)
             ((case fst (searchVivino pages w) of
                 Inr vivinoResults \<Rightarrow> vivinoResults
               | Inl error \<Rightarrow> []) @ mockResults options) of
        Inl error \<Rightarrow> Inl error
      | Inr normalizedResults \<Rightarrow>
          (case removeDuplicates normalizedResults of
             Inl error \<Rightarrow> Inl error
           | Inr uniqueResults \<Rightarrow>
               Inr (case limit options of
                      None \<Rightarrow> take 10 uniqueResults
                    | Some n \<Rightarrow>
                        if n = 0 then take 10 uniqueResults
                        else if n > 0 then take (nat n) uniqueResults
                        else take (length uniqueResults - nat (- n)) uniqueResults)))"
proof -
  obtain vivino w1 where v: "searchVivino pages w = (vivino, w1)" by (cases "searchVivino pages w")
  have cut: "nat (int k + n) = k - nat (- n)" if "n < 0" for k :: nat and n :: int
    using that by linarith
  show ?thesis
    by (cases vivino; cases "limit options")
       (simp_all add: searchWine_def searchWineApi_def v Let_def js_slice0_def cut
          split: sum.splits)
qed

lemma lookup_alias_own:
  "cleaned \<notin> set inherited_properties \<Longrightarrow>
   lookup_alias table cleaned = None \<or> (\<exists>v. lookup_alias table cleaned = Some (Text v))"
  by (cases "map_of table cleaned";
      cases "find (\<lambda>(key, v). js_includes cleaned key \<or> js_includes key cleaned) table")
     (auto simp: lookup_alias_def table_lookup_def)

lemma normalizeRegion_own:
  "trim (toLowerCase r) \<notin> set inherited_properties \<Longrightarrow> \<exists>v. normalizeRegion (Text r) = Inr (Text v)"
  using lookup_alias_own[of "trim (toLowerCase r)" REGION_MAPPING]
  by (auto simp: normalizeRegion_def Let_def)

lemma normalizeVariety_text: "\<exists>v. normalizeVariety (Text g) = Inr v"
  by (cases "lookup_alias GRAPE_VARIETY_MAPPING (trim (toLowerCase g))")
     (simp_all add: normalizeVariety_def Let_def)

lemma map_throwing_returns:
  "(\<forall>x\<in>set xs. \<exists>y. f x = Inr y \<and> P y) \<Longrightarrow>
   \<exists>ys. map_throwing f xs = Inr ys \<and> (\<forall>y\<in>set ys. P y)"
proof (induction xs)
  case Nil
  then show ?case by simp
next
  case (Cons x xs)
  then obtain y ys where "f x = Inr y" "P y" "map_throwing f xs = Inr ys" "\<forall>y\<in>set ys. P y"
    by auto
  then show ?case by simp
qed

lemma normalizeGrapeVarieties_texts:
  "list_all (\<lambda>variety. case variety of Text v \<Rightarrow> True | Inherited key \<Rightarrow> False) varieties \<Longrightarrow>
   \<exists>vs. normalizeGrapeVarieties varieties = Inr vs"
proof -
  assume texts: "list_all (\<lambda>variety. case variety of Text v \<Rightarrow> True | Inherited key \<Rightarrow> False) varieties"
  have "\<forall>x\<in>set varieties. \<exists>y. normalizeVariety x = Inr y \<and> True"
  proof
    fix x assume "x \<in> set varieties"
    with texts obtain g where "x = Text g" by (cases x) (auto simp: list_all_iff)
    with normalizeVariety_text[of g] show "\<exists>y. normalizeVariety x = Inr y \<and> True" by simp
  qed
  from map_throwing_returns[OF this] show ?thesis
    by (auto simp: normalizeGrapeVarieties_def)
qed

lemma normalizeWineData_plain:
  assumes "plain_texts wine"
  shows "\<exists>normalized. normalizeWineData currentYear wine = Inr normalized \<and>
           (\<exists>r. region normalized = Text r)"
proof -
  from assms obtain r where r: "region wine = Text r"
    "trim (toLowerCase r) \<notin> set inherited_properties"
    by (cases "region wine") (auto simp: plain_texts_def)
  from normalizeRegion_own[OF r(2)] obtain v where v: "normalizeRegion (region wine) = Inr (Text v)"
    by (auto simp: r(1))
  from assms normalizeGrapeVarieties_texts[of "grape_varieties wine"]
  obtain vs where vs: "normalizeGrapeVarieties (grape_varieties wine) = Inr vs"
    by (auto simp: plain_texts_def)
  show ?thesis by (simp add: normalizeWineData_def v vs)
qed

lemma plain_texts_pipeline:
  assumes "list_all plain_texts found"
  shows "\<exists>normalizedResults uniqueResults.
           map_throwing (normalizeWineData currentYear) found = Inr normalizedResults \<and>
           removeDuplicates normalizedResults = Inr uniqueResults"
proof -
  have "\<forall>x\<in>set found. \<exists>y. normalizeWineData currentYear x = Inr y \<and> (\<exists>r. region y = Text r)"
    using assms normalizeWineData_plain by (auto simp: list_all_iff)
  from map_throwing_returns[OF this] obtain ys where
    ys: "map_throwing (normalizeWineData currentYear) found = Inr ys"
      "\<forall>y\<in>set ys. \<exists>r. region y = Text r"
    by blast
  from removeDuplicates_returns[OF ys(2)] ys(1) show ?thesis by blast
qed

text \<open>
  C6, as amended. Whenever the normalization and the removal of duplicates return,
  \<open>searchWine\<close> returns a slice of \<open>removeDuplicates\<close> applied to the element-wise
  \<open>normalizeWineData\<close> of the Vivino results followed by the mock wine-API results: its
  first \<open>limit\<close> elements when \<open>limit\<close> is positive, its first 10 elements when \<open>limit\<close> is
  absent or 0, and all but its last \<open>-limit\<close> elements when \<open>limit\<close> is negative. A failure
  thrown by the Vivino search is caught: the Vivino results are then empty, and the mock
  results are still normalized, deduplicated and returned. The two steps return whenever
  the regions and grape varieties found are strings and no region is, in lower case and
  trimmed, the name of a property of \<open>Object.prototype\<close>.
\<close>

theorem searchWine_result:
  "(\<forall>normalizedResults uniqueResults.
      map_throwing (normalizeWineData currentYear)
        ((case fst (searchVivino pages w) of
            Inr vivinoResults \<Rightarrow> vivinoResults
          | Inl error \<Rightarrow> []) @ mockResults options) = Inr normalizedResults \<and>
      removeDuplicates normalizedResults = Inr uniqueResults \<longrightarrow>
      fst (searchWine currentYear pages options w) =
        Inr (case limit options of
               None \<Rightarrow> take 10 uniqueResults
             | Some n \<Rightarrow>
                 if n = 0 then take 10 uniqueResults
                 else if n > 0 then take (nat n) uniqueResults
                 else take (length uniqueResults - nat (- n)) uniqueResults)) \<and>
   (list_all plain_texts
      ((case fst (searchVivino pages w) of
          Inr vivinoResults \<Rightarrow> vivinoResults
        | Inl error \<Rightarrow> []) @ mockResults options) \<longrightarrow>
    (\<exists>normalizedResults uniqueResults.
       map_throwing (normalizeWineData currentYear)
         ((case fst (searchVivino pages w) of
             Inr vivinoResults \<Rightarrow> vivinoResults
           | Inl error \<Rightarrow> []) @ mockResults options) = Inr normalizedResults \<and>
       removeDuplicates normalizedResults = Inr uniqueResults))"
proof (rule conjI)
  show "\<forall>normalizedResults uniqueResults.
      map_throwing (normalizeWineData currentYear)
        ((case fst (searchVivino pages w) of
            Inr vivinoResults \<Rightarrow> vivinoResults
          | Inl error \<Rightarrow> []) @ mockResults options) = Inr normalizedResults \<and>
      removeDuplicates normalizedResults = Inr uniqueResults \<longrightarrow>
      fst (searchWine currentYear pages options w) =
        Inr (case limit options of
               None \<Rightarrow> take 10 uniqueResults
             | Some n \<Rightarrow>
                 if n = 0 then take 10 uniqueResults
                 else if n > 0 then take (nat n) uniqueResults
                 else take (length uniqueResults - nat (- n)) uniqueResults)"
    by (simp add: searchWine_fst)
  show "list_all plain_texts
      ((case fst (searchVivino pages w) of
          Inr vivinoResults \<Rightarrow> vivinoResults
        | Inl error \<Rightarrow> []) @ mockResults options) \<longrightarrow>
    (\<exists>normalizedResults uniqueResults.
       map_throwing (normalizeWineData currentYear)
         ((case fst (searchVivino pages w) of
             Inr vivinoResults \<Rightarrow> vivinoResults
           | Inl error \<Rightarrow> []) @ mockResults options) = Inr normalizedResults \<and>
       removeDuplicates normalizedResults = Inr uniqueResults)"
    by (rule impI, rule plain_texts_pipeline)
qed

lemma searchVivino_first_attempt:
  "page_result (pages 0) = Inr found \<Longrightarrow> fst (searchVivino pages w) = Inr found"
  by (simp add: searchVivino_def retry_unrolled performVivinoSearch_def split: prod.splits)

lemma searchVivino_site_down: "fst (searchVivino site_down w) = Inl dns_failure"
  by (simp add: searchVivino_def retry_unrolled performVivinoSearch_def site_down_def
        dns_failure_def split: prod.splits)

theorem searchWine_result_witness:
  "fst (searchWine 2026 (site_lists [card_opus, card_tignanello]) (opus_search (Some 2)) world0) =
     map_throwing (normalizeWineData 2026) [card_opus, card_tignanello] \<and>
   \<not> isl (fst (searchWine 2026 (site_lists [card_opus, card_tignanello]) (opus_search (Some 2)) world0)) \<and>
   fst (searchWine 2026 site_down (opus_search None) world0) =
     map_throwing (normalizeWineData 2026) (mockResults (opus_search None)) \<and>
   \<not> isl (fst (searchWine 2026 site_down (opus_search None) world0))"
proof -
  have a: "fst (searchVivino (site_lists [card_opus, card_tignanello]) world0) = Inr [card_opus, card_tignanello]"
    by (rule searchVivino_first_attempt) (simp add: site_lists_def)
  have b: "(case map_throwing (normalizeWineData 2026)
                   ([card_opus, card_tignanello] @ mockResults (opus_search (Some 2))) of
              Inl error \<Rightarrow> False
            | Inr normalizedResults \<Rightarrow>
                removeDuplicates normalizedResults = Inr normalizedResults \<and>
                Inr (take 2 normalizedResults) =
                  map_throwing (normalizeWineData 2026) [card_opus, card_tignanello])"
    by code_simp
  then obtain n1 where n1:
    "map_throwing (normalizeWineData 2026)
       ([card_opus, card_tignanello] @ mockResults (opus_search (Some 2))) = Inr n1"
    "removeDuplicates n1 = Inr n1"
    "Inr (take 2 n1) = map_throwing (normalizeWineData 2026) [card_opus, card_tignanello]"
    by (auto split: sum.splits)
  have c: "(case map_throwing (normalizeWineData 2026) (mockResults (opus_search None)) of
              Inl error \<Rightarrow> False
            | Inr normalizedResults \<Rightarrow>
                removeDuplicates normalizedResults = Inr normalizedResults \<and>
                length normalizedResults = 1)"
    by code_simp
  then obtain n2 where n2:
    "map_throwing (normalizeWineData 2026) (mockResults (opus_search None)) = Inr n2"
    "removeDuplicates n2 = Inr n2" "length n2 = 1"
    by (auto split: sum.splits)
  from searchWine_result[of 2026 "site_lists [card_opus, card_tignanello]" world0 "opus_search (Some 2)"]
    a n1
  have one: "fst (searchWine 2026 (site_lists [card_opus, card_tignanello]) (opus_search (Some 2)) world0) =
     map_throwing (normalizeWineData 2026) [card_opus, card_tignanello]"
    by (simp add: opus_search_def)
  from searchWine_result[of 2026 site_down world0 "opus_search None"]
    searchVivino_site_down[of world0] n2
  have two: "fst (searchWine 2026 site_down (opus_search None) world0) =
     map_throwing (normalizeWineData 2026) (mockResults (opus_search None))"
    by (simp add: opus_search_def)
  from one n1(3) have three:
    "\<not> isl (fst (searchWine 2026 (site_lists [card_opus, card_tignanello]) (opus_search (Some 2)) world0))"
    by (metis sum.disc(2))
  from two n2(1) have four: "\<not> isl (fst (searchWine 2026 site_down (opus_search None) world0))"
    by simp
  from one two three four show ?thesis by (intro conjI)
qed

text \<open>
  C6 as stated fails for the limit 0: \<open>options.limit || 10\<close> replaces it by 10, and the
  search returns one result, not the first 0 results.
\<close>

theorem searchWine_limit_zero_counterexample:
  "limit (opus_search (Some 0)) = Some 0 \<and>
   fst (searchWine 2026 site_down (opus_search (Some 0)) world0) =
     map_throwing (normalizeWineData 2026) (mockResults (opus_search (Some 0))) \<and>
   \<not> isl (fst (searchWine 2026 site_down (opus_search (Some 0)) world0)) \<and>
   length (projr (fst (searchWine 2026 site_down (opus_search (Some 0)) world0))) = 1"
proof -
  have c: "(case map_throwing (normalizeWineData 2026) (mockResults (opus_search (Some 0))) of
              Inl error \<Rightarrow> False
            | Inr normalizedResults \<Rightarrow>
                removeDuplicates normalizedResults = Inr normalizedResults \<and>
                length normalizedResults = 1)"
    by code_simp
  then obtain n2 where n2:
    "map_throwing (normalizeWineData 2026) (mockResults (opus_search (Some 0))) = Inr n2"
    "removeDuplicates n2 = Inr n2" "length n2 = 1"
    by (auto split: sum.splits)
  have "fst (searchWine 2026 site_down (opus_search (Some 0)) world0) = Inr n2"
    using searchVivino_site_down[of world0] n2
    by (simp add: searchWine_fst opus_search_def)
  with n2 show ?thesis by (simp add: opus_search_def)
qed

text \<open>
  The region filter \<open>constructor\<close>: \<open>REGION_MAPPING[cleaned]\<close> finds the property that
  \<open>Object.prototype\<close> holds under that name, so the normalized region of the mock result is
  a function; comparing the mock result with a Vivino result calls \<open>toLowerCase\<close> on it,
  and \<open>searchWine\<close> throws the \<open>TypeError\<close>.
\<close>

lemma searchWine_inherited_region:
  "normalizeRegion (Text ''constructor'') = Inr (Inherited ''constructor'') \<and>
   fst (searchWine 2026 (site_lists [card_opus]) constructor_search world0) =
     Inl (type_error ''str1.toLowerCase'')"
proof -
  have r: "normalizeRegion (Text ''constructor'') = Inr (Inherited ''constructor'')"
    by code_simp
  have a: "fst (searchVivino (site_lists [card_opus]) world0) = Inr [card_opus]"
    by (rule searchVivino_first_attempt) (simp add: site_lists_def)
  have b: "(case map_throwing (normalizeWineData 2026) ([card_opus] @ mockResults constructor_search) of
              Inl error \<Rightarrow> Inl error
            | Inr normalizedResults \<Rightarrow> removeDuplicates normalizedResults) =
           Inl (type_error ''str1.toLowerCase'')"
    by code_simp
  have "fst (searchWine 2026 (site_lists [card_opus]) constructor_search world0) =
     Inl (type_error ''str1.toLowerCase'')"
    using b unfolding searchWine_fst a by (auto split: sum.splits)
  with r show ?thesis by simp
qed

section \<open>The rate limit\<close>

lemma rateLimit_fields:
  "lastRequestTime (rateLimit w) \<ge> lastRequestTime w + 2000 \<and>
   lastRequestTime (rateLimit w) = clock (rateLimit w) \<and>
   requestCount (rateLimit w) = requestCount w + 1 \<and>
   browser (rateLimit w) = browser w \<and> launches (rateLimit w) = launches w \<and>
   closed (rateLimit w) = closed w"
  by (auto simp: rateLimit_def rateLimit_delay_def rateLimit_record_def sleep_def
        RATE_LIMIT_DELAY_def Let_def split: list.splits)

text \<open>
  C7, as amended. Each of \<open>performVivinoSearch\<close>, \<open>searchWineApi\<close>, \<open>getWineDetails\<close> and
  \<open>suggestFoodPairings\<close> begins with \<open>rateLimit\<close>. The wait of \<open>rateLimit\<close> is computed from
  the clock and the stored \<open>lastRequestTime\<close> only. A call of \<open>rateLimit\<close> that runs with no
  other call overlapping it stores a \<open>lastRequestTime\<close> at least 2000 ms after the one it
  found (a timer of \<open>setTimeout\<close> fires no earlier than asked), and adds exactly one to
  \<open>requestCount\<close>.
\<close>

theorem rateLimit_minimum_delay:
  "RATE_LIMIT_DELAY = 2000 \<and>
   rateLimit_delay w =
     (if clock w - lastRequestTime w < 2000 then Some (2000 - (clock w - lastRequestTime w))
      else None) \<and>
   lastRequestTime (rateLimit w) \<ge> lastRequestTime w + 2000 \<and>
   lastRequestTime (rateLimit w) = clock (rateLimit w) \<and>
   requestCount (rateLimit w) = requestCount w + 1 \<and>
   snd (performVivinoSearch page w) = advance (page_duration page) (snd (getBrowser (rateLimit w))) \<and>
   snd (searchWineApi options w) = rateLimit w \<and>
   snd (getWineDetails wine_ident src w) = rateLimit w \<and>
   snd (suggestFoodPairings wine_color wine_grapes w) = rateLimit w"
  using rateLimit_fields[of w]
  by (simp add: RATE_LIMIT_DELAY_def rateLimit_delay_def performVivinoSearch_def
        searchWineApi_def getWineDetails_def suggestFoodPairings_def Let_def split: prod.splits)

theorem rateLimit_minimum_delay_witness:
  "rateLimit (world0\<lparr>clock := 500, timer_lateness := [3]\<rparr>) =
     world0\<lparr>clock := 2003, timer_lateness := [], lastRequestTime := 2003, requestCount := 1\<rparr> \<and>
   rateLimit (world0\<lparr>clock := 7000, lastRequestTime := 2003, requestCount := 1\<rparr>) =
     world0\<lparr>clock := 7000, lastRequestTime := 7000, requestCount := 2\<rparr>"
proof -
  let ?w = "world0\<lparr>clock := 500, timer_lateness := [3]\<rparr>"
  let ?v = "world0\<lparr>clock := 7000, lastRequestTime := 2003, requestCount := 1\<rparr>"
  from rateLimit_minimum_delay[of ?w] have "rateLimit_delay ?w = Some 1500"
    by (simp add: world0_def)
  then have a: "rateLimit ?w =
      world0\<lparr>clock := 2003, timer_lateness := [], lastRequestTime := 2003, requestCount := 1\<rparr>"
    by (simp add: rateLimit_def rateLimit_record_def sleep_def world0_def)
  from rateLimit_minimum_delay[of ?v] have "rateLimit_delay ?v = None"
    by (simp add: world0_def)
  then have "rateLimit ?v = world0\<lparr>clock := 7000, lastRequestTime := 7000, requestCount := 2\<rparr>"
    by (simp add: rateLimit_def rateLimit_record_def world0_def)
  with a show ?thesis by simp
qed

text \<open>
  C7 as stated fails for calls that overlap: three requests enter \<open>rateLimit\<close> at 10000,
  10001 and 10002 ms. The first does not wait. The second and the third both wait until
  12000 ms, computed from the same stored timestamp, and both store 12000: two consecutive
  requests with recorded timestamps 0 ms apart.
\<close>

theorem rateLimit_overlapping_calls_counterexample:
  "overlapped [Call_rateLimit 10000, Call_rateLimit 10001, Call_rateLimit 10002,
               Timer_fires 12000, Timer_fires 12000] (world0, [], []) =
     Some (world0\<lparr>requestCount := 3, lastRequestTime := 12000, clock := 12000\<rparr>,
           [], [10000, 12000, 12000])"
  by (simp add: world0_def rateLimit_delay_def rateLimit_record_def RATE_LIMIT_DELAY_def Let_def)

section \<open>The browser\<close>

text \<open>
  C9, as amended. A call of \<open>getBrowser\<close> that begins while no browser is stored calls
  \<open>puppeteer.launch\<close> and is suspended; when it resumes it stores the launched browser and
  returns it. A call that begins while a browser is stored returns that browser at once and
  launches nothing. So for calls that do not overlap (each completes before the next
  begins) \<open>getBrowser\<close> launches a browser exactly when none is stored, and a second call
  returns the instance of the first. \<open>cleanup\<close> calls \<open>close\<close> on the stored browser and,
  when it resumes, resets the reference; it launches nothing; \<open>getBrowser\<close> after a
  completed \<open>cleanup\<close> launches a new browser, different from the one closed.
\<close>

theorem browser_lazy_reuse:
  "(browser w = None \<longrightarrow>
      getBrowser_begin w = (Awaiting_launch (launches w), w\<lparr>launches := launches w + 1\<rparr>) \<and>
      getBrowser w = (launches w, w\<lparr>browser := Some (launches w), launches := launches w + 1\<rparr>)) \<and>
   (browser w = Some b \<longrightarrow> getBrowser_begin w = (Returned b, w) \<and> getBrowser w = (b, w)) \<and>
   getBrowser_resume launched w = (launched, w\<lparr>browser := Some launched\<rparr>) \<and>
   getBrowser (snd (getBrowser w)) = (fst (getBrowser w), snd (getBrowser w)) \<and>
   browser (cleanup w) = None \<and>
   launches (cleanup w) = launches w \<and>
   (browser w = Some b \<longrightarrow>
      closeBrowser_begin w = (True, w\<lparr>closed := closed w @ [b]\<rparr>) \<and>
      closed (cleanup w) = closed w @ [b]) \<and>
   (browser w = None \<longrightarrow> closeBrowser_begin w = (False, w) \<and> cleanup w = w) \<and>
   getBrowser (cleanup w) =
     (launches w, (cleanup w)\<lparr>browser := Some (launches w), launches := launches w + 1\<rparr>) \<and>
   (browser w = Some b \<and> b < launches w \<longrightarrow> fst (getBrowser (cleanup w)) \<noteq> b) \<and>
   ((\<forall>b'. browser w = Some b' \<longrightarrow> b' < launches w) \<longrightarrow>
      (\<forall>b'. browser (snd (getBrowser w)) = Some b' \<longrightarrow> b' < launches (snd (getBrowser w))))"
  by (cases "browser w")
     (auto simp: getBrowser_def getBrowser_begin_def getBrowser_resume_def cleanup_def
        closeBrowser_def closeBrowser_begin_def closeBrowser_resume_def)

theorem browser_lazy_reuse_witness:
  "getBrowser world0 = (0, world0\<lparr>browser := Some 0, launches := 1\<rparr>) \<and>
   getBrowser (world0\<lparr>browser := Some 0, launches := 1\<rparr>) =
     (0, world0\<lparr>browser := Some 0, launches := 1\<rparr>) \<and>
   cleanup (world0\<lparr>browser := Some 0, launches := 1\<rparr>) = world0\<lparr>launches := 1, closed := [0]\<rparr> \<and>
   getBrowser (cleanup (world0\<lparr>browser := Some 0, launches := 1\<rparr>)) =
     (1, world0\<lparr>browser := Some 1, launches := 2, closed := [0]\<rparr>)"
proof -
  let ?w = "world0\<lparr>browser := Some 0, launches := 1\<rparr>"
  have n: "browser world0 = None" "launches world0 = 0" by (simp_all add: world0_def)
  have s: "browser ?w = Some 0" "launches ?w = 1" "closed ?w = []" by (simp_all add: world0_def)
  from browser_lazy_reuse[of world0] n
  have a: "getBrowser world0 = (0, ?w)" by simp
  from browser_lazy_reuse[of ?w 0] s
  have b: "getBrowser ?w = (0, ?w)" and c: "browser (cleanup ?w) = None"
    and d: "closed (cleanup ?w) = [0]"
    and e: "getBrowser (cleanup ?w) = (1, (cleanup ?w)\<lparr>browser := Some 1, launches := 2\<rparr>)"
    by simp_all
  have f: "cleanup ?w = world0\<lparr>launches := 1, closed := [0]\<rparr>"
    by (simp add: cleanup_def closeBrowser_def closeBrowser_begin_def closeBrowser_resume_def
          world0_def)
  from a b e f show ?thesis by (simp add: world0_def)
qed

text \<open>
  C9 as stated fails for calls that overlap: two calls of \<open>getBrowser\<close> begin before the
  launch of the first has resolved. Both find no browser stored and both launch one. The
  first call returns browser 0, the second returns browser 1 and overwrites the stored
  reference; browser 0 is never closed by \<open>cleanup\<close>.
\<close>

theorem getBrowser_overlapping_calls_counterexample:
  "browser_run [Call_getBrowser, Call_getBrowser, Launch_resolves, Launch_resolves]
     (world0, [], 0, []) =
     Some (world0\<lparr>browser := Some 1, launches := 2\<rparr>, [], 0, [0, 1]) \<and>
   browser_run [Call_getBrowser, Call_getBrowser, Launch_resolves, Launch_resolves,
                Call_cleanup, Close_resolves]
     (world0, [], 0, []) =
     Some (world0\<lparr>browser := None, launches := 2, closed := [1]\<rparr>, [], 0, [0, 1])"
  by (simp add: world0_def getBrowser_begin_def getBrowser_resume_def closeBrowser_begin_def
        closeBrowser_resume_def)

section \<open>Consumption and rack slots\<close>

lemma update_rows_Inr:
  "update_rows ident change db = Inr db2 \<Longrightarrow>
   wines db2 = map (\<lambda>w. if w_id w = ident then change w else w) (wines db) \<and>
   rack_slots db2 = rack_slots db"
  by (auto simp: update_rows_def Let_def split: if_splits)

lemma clearSlot_rows:
  "rack_slots (snd (clearSlotByWineId ident now db)) =
     map (\<lambda>s. if wine_id s = Some ident
                then s\<lparr>wine_id := None, is_occupied := False,
                       last_updated := now, slot_updated_at := now\<rparr>
                else s) (rack_slots db) \<and>
   wines (snd (clearSlotByWineId ident now db)) = wines db"
  by (simp add: clearSlotByWineId_def Let_def)

lemma consumed_without_slot_intro:
  assumes "update_rows ident change (snd (clearSlotByWineId ident now db)) = Inr db2"
    and "\<And>w. w_id (change w) = w_id w"
    and "\<And>w. w_consumption_status (change w) = ''Consumed'' \<and> w_rack_slot (change w) = None"
  shows "consumed_without_slot ident now db db2"
proof -
  from update_rows_Inr[OF assms(1)] clearSlot_rows[of ident now db]
  have w: "wines db2 = map (\<lambda>w. if w_id w = ident then change w else w) (wines db)"
    and s: "rack_slots db2 = map (\<lambda>s. if wine_id s = Some ident
                then s\<lparr>wine_id := None, is_occupied := False,
                       last_updated := now, slot_updated_at := now\<rparr>
                else s) (rack_slots db)"
    by simp_all
  show ?thesis
    unfolding consumed_without_slot_def
    using assms(2,3) by (auto simp: w s)
qed

lemma update_consumed:
  assumes "u_consumption_status updates = Some ''Consumed''"
    and "WineModel_update ident updates now db = (Inr result, db')"
  shows "consumed_without_slot ident now db db' \<and> result = findById ident db'"
proof -
  let ?change = "apply_update (updates\<lparr>u_rack_slot := Some None\<rparr>) now"
  from assms have u: "update_rows ident ?change (snd (clearSlotByWineId ident now db)) = Inr db'"
    and r: "result = findById ident db'"
    by (auto simp: WineModel_update_def Let_def split: sum.splits)
  have "consumed_without_slot ident now db db'"
    by (rule consumed_without_slot_intro[OF u])
       (simp_all add: apply_update_def or_else_def assms(1))
  with r show ?thesis by simp
qed

lemma markConsumed_consumed:
  assumes "WineModel_markConsumed ident consumedDate now db = (Inr result, db')"
  shows "consumed_without_slot ident now db db' \<and> result = findById ident db'"
proof -
  let ?change = "\<lambda>w. w\<lparr>w_consumption_status := ''Consumed'',
                          w_date_consumed := Some (or_else consumedDate now),
                          w_rack_slot := None,
                          w_updated_at := now\<rparr>"
  from assms have u: "update_rows ident ?change (snd (clearSlotByWineId ident now db)) = Inr db'"
    and r: "result = findById ident db'"
    by (auto simp: WineModel_markConsumed_def Let_def split: sum.splits)
  have "consumed_without_slot ident now db db'"
    by (rule consumed_without_slot_intro[OF u]) simp_all
  with r show ?thesis by simp
qed

lemma trim_Consumed: "trim ''Consumed'' = ''Consumed''"
  by code_simp

lemma consume_wine_consumed:
  assumes "consume_wine now ident consumed_date db = (res, db')" and "res_status res = 200"
  shows "consumed_without_slot ident now db db'"
proof -
  from assms obtain result cd where
    "WineModel_markConsumed ident cd now db = (Inr result, db')"
    by (auto simp: consume_wine_def Let_def split: option.splits if_splits prod.splits sum.splits)
  from markConsumed_consumed[OF this] show ?thesis by simp
qed

lemma put_wine_consumed:
  assumes "b_consumption_status body = Some ''Consumed''"
    and "put_wine currentYear now ident body db = (res, db')" and "res_status res = 200"
  shows "consumed_without_slot ident now db db'"
proof -
  from assms obtain result updateData where
    "WineModel_update ident updateData now db = (Inr result, db')"
    "u_consumption_status updateData = Some ''Consumed''"
    by (auto simp: put_wine_def Let_def trim_Consumed
          split: option.splits if_splits prod.splits sum.splits)
  from update_consumed[OF this(2,1)] show ?thesis by simp
qed

text \<open>
  C4, as amended. Every operation that sets \<open>consumption_status\<close> to \<open>Consumed\<close> and
  succeeds (\<open>WineModel.update\<close> given that status, \<open>WineModel.markConsumed\<close>, the endpoint
  \<open>POST /api/wines/:id/consume\<close> answering 200, and \<open>PUT /api/wines/:id\<close> given that status
  and answering 200) leaves the wine with status \<open>Consumed\<close> and \<open>rack_slot\<close> null, and
  every rack-slot row that was assigned to the wine with \<open>wine_id\<close> null and \<open>is_occupied\<close>
  false, so that right after the operation no rack-slot row refers to the wine and the
  wine holds no rack slot.
\<close>

theorem consumed_clears_rack_slot:
  "(u_consumption_status updates = Some ''Consumed'' \<and>
    WineModel_update ident updates now db = (Inr result, db1) \<longrightarrow>
      consumed_without_slot ident now db db1 \<and> result = findById ident db1) \<and>
   (WineModel_markConsumed ident consumedDate now db = (Inr result, db2) \<longrightarrow>
      consumed_without_slot ident now db db2 \<and> result = findById ident db2) \<and>
   (consume_wine now ident consumed_date db = (res, db3) \<and> res_status res = 200 \<longrightarrow>
      consumed_without_slot ident now db db3) \<and>
   (b_consumption_status body = Some ''Consumed'' \<and>
    put_wine currentYear now ident body db = (res, db4) \<and> res_status res = 200 \<longrightarrow>
      consumed_without_slot ident now db db4)"
proof -
  have a: "u_consumption_status updates = Some ''Consumed'' \<and>
      WineModel_update ident updates now db = (Inr result, db1) \<longrightarrow>
        consumed_without_slot ident now db db1 \<and> result = findById ident db1"
    by (rule impI, elim conjE, rule update_consumed)
  have b: "WineModel_markConsumed ident consumedDate now db = (Inr result, db2) \<longrightarrow>
      consumed_without_slot ident now db db2 \<and> result = findById ident db2"
    by (rule impI, rule markConsumed_consumed)
  have c: "consume_wine now ident consumed_date db = (res, db3) \<and> res_status res = 200 \<longrightarrow>
      consumed_without_slot ident now db db3"
    by (rule impI, elim conjE, rule consume_wine_consumed)
  have d: "b_consumption_status body = Some ''Consumed'' \<and>
      put_wine currentYear now ident body db = (res, db4) \<and> res_status res = 200 \<longrightarrow>
        consumed_without_slot ident now db db4"
    by (rule impI, elim conjE, rule put_wine_consumed)
  show ?thesis
    by (rule conjI[OF a conjI[OF b conjI[OF c d]]])
qed

theorem consumed_clears_rack_slot_witness:
  "WineModel_update ''w1'' (no_update\<lparr>u_consumption_status := Some ''Consumed''\<rparr>) 500 cellar =
     (Inr (Some ((cellar_wine ''w1'' ''Consumed'' None)\<lparr>w_updated_at := 500\<rparr>)),
      cellar\<lparr>wines := [(cellar_wine ''w1'' ''Consumed'' None)\<lparr>w_updated_at := 500\<rparr>],
             rack_slots := [(cellar_slot ''A1'' None)\<lparr>last_updated := 500, slot_updated_at := 500\<rparr>,
                            cellar_slot ''A2'' None]\<rparr>) \<and>
   consumed_without_slot ''w1'' 500 cellar
     (snd (WineModel_update ''w1'' (no_update\<lparr>u_consumption_status := Some ''Consumed''\<rparr>) 500 cellar)) \<and>
   res_status (fst (consume_wine 500 ''w1'' None cellar)) = 200 \<and>
   consumed_without_slot ''w1'' 500 cellar (snd (consume_wine 500 ''w1'' None cellar))"
proof -
  let ?u = "no_update\<lparr>u_consumption_status := Some ''Consumed''\<rparr>"
  have run: "WineModel_update ''w1'' ?u 500 cellar =
     (Inr (Some ((cellar_wine ''w1'' ''Consumed'' None)\<lparr>w_updated_at := 500\<rparr>)),
      cellar\<lparr>wines := [(cellar_wine ''w1'' ''Consumed'' None)\<lparr>w_updated_at := 500\<rparr>],
             rack_slots := [(cellar_slot ''A1'' None)\<lparr>last_updated := 500, slot_updated_at := 500\<rparr>,
                            cellar_slot ''A2'' None]\<rparr>)"
    by code_simp
  have st: "u_consumption_status ?u = Some ''Consumed''" by (simp add: no_update_def)
  have ok: "res_status (fst (consume_wine 500 ''w1'' None cellar)) = 200" by code_simp
  from consumed_clears_rack_slot[of ?u "''w1''" 500 cellar _
      "snd (WineModel_update ''w1'' ?u 500 cellar)" None _ None
      "fst (consume_wine 500 ''w1'' None cellar)" "snd (consume_wine 500 ''w1'' None cellar)"]
    run st ok
  have "consumed_without_slot ''w1'' 500 cellar (snd (WineModel_update ''w1'' ?u 500 cellar))"
    "consumed_without_slot ''w1'' 500 cellar (snd (consume_wine 500 ''w1'' None cellar))"
    by simp_all
  with run ok show ?thesis by simp
qed

text \<open>
  C4 as stated fails in its conclusion: a wine that is \<open>Consumed\<close> can hold a rack slot.
  The wine \<open>w1\<close> is marked as consumed, which clears its slot; a later \<open>PUT\<close> whose body
  names the rack slot \<open>A2\<close> and no status is answered 200 and stores the slot, because
  \<open>WineModel.update\<close> clears the slot only when the update itself sets the status.
\<close>

theorem consumed_wine_given_slot_counterexample:
  "res_status (fst (consume_wine 500 ''w1'' None cellar)) = 200 \<and>
   map w_rack_slot (wines (snd (consume_wine 500 ''w1'' None cellar))) = [None] \<and>
   res_status (fst (put_wine 2026 600 ''w1'' (empty_body\<lparr>b_rack_slot := Some (Some ''A2'')\<rparr>)
                      (snd (consume_wine 500 ''w1'' None cellar)))) = 200 \<and>
   map w_consumption_status
     (wines (snd (put_wine 2026 600 ''w1'' (empty_body\<lparr>b_rack_slot := Some (Some ''A2'')\<rparr>)
                    (snd (consume_wine 500 ''w1'' None cellar))))) = [''Consumed''] \<and>
   map w_rack_slot
     (wines (snd (put_wine 2026 600 ''w1'' (empty_body\<lparr>b_rack_slot := Some (Some ''A2'')\<rparr>)
                    (snd (consume_wine 500 ''w1'' None cellar))))) = [Some ''A2'']"
  by code_simp

section \<open>Validation of vintage year and rating\<close>

lemma post_wine_rejects:
  assumes "invalid_vintage_year currentYear (b_vintage_year body) \<or> invalid_rating (b_rating body)"
  shows "res_status (fst (post_wine currentYear now new_id body db)) = 400 \<and>
         snd (post_wine currentYear now new_id body db) = db"
proof (cases "invalid_vintage_year currentYear (b_vintage_year body)")
  case True
  then show ?thesis by (simp add: post_wine_def)
next
  case False
  with assms have "invalid_rating (b_rating body)" by simp
  with False show ?thesis by (simp add: post_wine_def)
qed

lemma put_wine_rejects:
  assumes "invalid_vintage_year currentYear (b_vintage_year body) \<or> invalid_rating (b_rating body)"
    and "findById ident db = Some existing"
  shows "res_status (fst (put_wine currentYear now ident body db)) = 400 \<and>
         snd (put_wine currentYear now ident body db) = db"
proof (cases "invalid_vintage_year currentYear (b_vintage_year body)")
  case True
  with assms(2) show ?thesis by (simp add: put_wine_def)
next
  case False
  with assms have "invalid_rating (b_rating body)" by simp
  with False assms(2) show ?thesis by (simp add: put_wine_def)
qed

lemma invalid_iff:
  "invalid_vintage_year currentYear v \<longleftrightarrow> (\<exists>y. v = Some y \<and> y \<noteq> 0 \<and> (y < 1800 \<or> y > currentYear))"
  "invalid_rating r \<longleftrightarrow> (\<exists>x. r = Some x \<and> x \<noteq> 0 \<and> (x < 1 \<or> x > 100))"
  by (auto simp: invalid_vintage_year_def invalid_rating_def split: option.splits)

lemma post_wine_accepts:
  assumes "\<not> invalid_vintage_year currentYear (b_vintage_year body)" "\<not> invalid_rating (b_rating body)"
  shows "res_body (fst (post_wine currentYear now new_id body db)) \<noteq>
           Error_message ''Invalid vintage year. Must be between 1800 and current year'' \<and>
         res_body (fst (post_wine currentYear now new_id body db)) \<noteq>
           Error_message ''Invalid rating. Must be between 1 and 100''"
proof -
  obtain r db' where c: "WineModel_create new_id now
       \<lparr>c_name = trim (the (b_name body)),
               c_vineyard = trim (the (b_vineyard body)),
               c_region = trim (the (b_region body)),
               c_color = the (b_color body),
               c_grape_varieties = map trim (the (b_grape_varieties body)),
               c_price = drop_zero (b_price body),
               c_currency = (if falsy_string (b_currency body) then Some ''USD''
                             else b_currency body),
               c_vintage_year = drop_zero (b_vintage_year body),
               c_rack_slot = (case b_rack_slot body of
                                Some (Some slot) \<Rightarrow> Some (trim slot)
                              | _ \<Rightarrow> None),
               c_description = map_option trim (b_description body),
               c_personal_notes = map_option trim (b_personal_notes body),
               c_rating = drop_zero (b_rating body),
               c_food_pairings = map_option (map trim) (b_food_pairings body)\<rparr> db = (r, db')"
    by (metis surj_pair)
  show ?thesis
    using assms by (cases r) (simp_all add: post_wine_def Let_def c)
qed

lemma put_wine_accepts:
  assumes "\<not> invalid_vintage_year currentYear (b_vintage_year body)" "\<not> invalid_rating (b_rating body)"
  shows "res_body (fst (put_wine currentYear now ident body db)) \<noteq>
           Error_message ''Invalid vintage year. Must be between 1800 and current year'' \<and>
         res_body (fst (put_wine currentYear now ident body db)) \<noteq>
           Error_message ''Invalid rating. Must be between 1 and 100''"
proof (cases "findById ident db")
  case None
  then show ?thesis by (simp add: put_wine_def)
next
  case (Some existing)
  obtain r db' where c: "WineModel_update ident
       \<lparr>u_name = map_option trim (b_name body),
                   u_vineyard = map_option trim (b_vineyard body),
                   u_region = map_option trim (b_region body),
                   u_color = map_option trim (b_color body),
                   u_grape_varieties = map_option (map trim) (b_grape_varieties body),
                   u_price = b_price body,
                   u_currency = map_option trim (b_currency body),
                   u_vintage_year = b_vintage_year body,
                   u_rack_slot = map_option (map_option trim) (b_rack_slot body),
                   u_description = map_option trim (b_description body),
                   u_personal_notes = map_option trim (b_personal_notes body),
                   u_rating = b_rating body,
                   u_food_pairings = map_option (map trim) (b_food_pairings body),
                   u_consumption_status = map_option trim (b_consumption_status body),
                   u_date_consumed = b_date_consumed body\<rparr> now db = (r, db')"
    by (metis surj_pair)
  show ?thesis
    using assms Some by (cases r) (simp_all add: put_wine_def Let_def c)
qed

text \<open>
  C5, as amended. \<open>POST /api/wines\<close>, and \<open>PUT /api/wines/:id\<close> for an id that is stored,
  respond with status 400 and leave the database unchanged whenever the request body
  supplies a vintage year other than 0 outside [1800, current year] or a rating other than
  0 outside [1,100]. Requests whose supplied vintage year and rating lie within those
  ranges are not rejected by these two checks: the response is neither of the two error
  messages.
\<close>

theorem range_validation_rejects:
  "((\<exists>y. b_vintage_year body = Some y \<and> y \<noteq> 0 \<and> (y < 1800 \<or> y > currentYear)) \<or>
    (\<exists>r. b_rating body = Some r \<and> r \<noteq> 0 \<and> (r < 1 \<or> r > 100)) \<longrightarrow>
      res_status (fst (post_wine currentYear now new_id body db)) = 400 \<and>
      snd (post_wine currentYear now new_id body db) = db \<and>
      (findById ident db \<noteq> None \<longrightarrow>
         res_status (fst (put_wine currentYear now ident body db)) = 400 \<and>
         snd (put_wine currentYear now ident body db) = db)) \<and>
   ((\<forall>y. b_vintage_year body = Some y \<longrightarrow> 1800 \<le> y \<and> y \<le> currentYear) \<and>
    (\<forall>r. b_rating body = Some r \<longrightarrow> 1 \<le> r \<and> r \<le> 100) \<longrightarrow>
      res_body (fst (post_wine currentYear now new_id body db)) \<noteq>
        Error_message ''Invalid vintage year. Must be between 1800 and current year'' \<and>
      res_body (fst (post_wine currentYear now new_id body db)) \<noteq>
        Error_message ''Invalid rating. Must be between 1 and 100'' \<and>
      res_body (fst (put_wine currentYear now ident body db)) \<noteq>
        Error_message ''Invalid vintage year. Must be between 1800 and current year'' \<and>
      res_body (fst (put_wine currentYear now ident body db)) \<noteq>
        Error_message ''Invalid rating. Must be between 1 and 100'')"
proof -
  have a: "(\<exists>y. b_vintage_year body = Some y \<and> y \<noteq> 0 \<and> (y < 1800 \<or> y > currentYear)) \<or>
    (\<exists>r. b_rating body = Some r \<and> r \<noteq> 0 \<and> (r < 1 \<or> r > 100)) \<longrightarrow>
      res_status (fst (post_wine currentYear now new_id body db)) = 400 \<and>
      snd (post_wine currentYear now new_id body db) = db \<and>
      (findById ident db \<noteq> None \<longrightarrow>
         res_status (fst (put_wine currentYear now ident body db)) = 400 \<and>
         snd (put_wine currentYear now ident body db) = db)"
  proof
    assume "(\<exists>y. b_vintage_year body = Some y \<and> y \<noteq> 0 \<and> (y < 1800 \<or> y > currentYear)) \<or>
      (\<exists>r. b_rating body = Some r \<and> r \<noteq> 0 \<and> (r < 1 \<or> r > 100))"
    then have bad: "invalid_vintage_year currentYear (b_vintage_year body) \<or>
        invalid_rating (b_rating body)"
      by (simp only: invalid_iff)
    from post_wine_rejects[OF bad] put_wine_rejects[OF bad]
    show "res_status (fst (post_wine currentYear now new_id body db)) = 400 \<and>
      snd (post_wine currentYear now new_id body db) = db \<and>
      (findById ident db \<noteq> None \<longrightarrow>
         res_status (fst (put_wine currentYear now ident body db)) = 400 \<and>
         snd (put_wine currentYear now ident body db) = db)"
      by (cases "findById ident db") simp_all
  qed
  have b: "(\<forall>y. b_vintage_year body = Some y \<longrightarrow> 1800 \<le> y \<and> y \<le> currentYear) \<and>
    (\<forall>r. b_rating body = Some r \<longrightarrow> 1 \<le> r \<and> r \<le> 100) \<longrightarrow>
      res_body (fst (post_wine currentYear now new_id body db)) \<noteq>
        Error_message ''Invalid vintage year. Must be between 1800 and current year'' \<and>
      res_body (fst (post_wine currentYear now new_id body db)) \<noteq>
        Error_message ''Invalid rating. Must be between 1 and 100'' \<and>
      res_body (fst (put_wine currentYear now ident body db)) \<noteq>
        Error_message ''Invalid vintage year. Must be between 1800 and current year'' \<and>
      res_body (fst (put_wine currentYear now ident body db)) \<noteq>
        Error_message ''Invalid rating. Must be between 1 and 100''"
  proof
    assume ok: "(\<forall>y. b_vintage_year body = Some y \<longrightarrow> 1800 \<le> y \<and> y \<le> currentYear) \<and>
      (\<forall>r. b_rating body = Some r \<longrightarrow> 1 \<le> r \<and> r \<le> 100)"
    then have good: "\<not> invalid_vintage_year currentYear (b_vintage_year body)"
      "\<not> invalid_rating (b_rating body)"
      by (auto simp: invalid_iff)
    from post_wine_accepts[OF good] put_wine_accepts[OF good]
    show "res_body (fst (post_wine currentYear now new_id body db)) \<noteq>
        Error_message ''Invalid vintage year. Must be between 1800 and current year'' \<and>
      res_body (fst (post_wine currentYear now new_id body db)) \<noteq>
        Error_message ''Invalid rating. Must be between 1 and 100'' \<and>
      res_body (fst (put_wine currentYear now ident body db)) \<noteq>
        Error_message ''Invalid vintage year. Must be between 1800 and current year'' \<and>
      res_body (fst (put_wine currentYear now ident body db)) \<noteq>
        Error_message ''Invalid rating. Must be between 1 and 100''"
      by simp
  qed
  from a b show ?thesis by (rule conjI)
qed

theorem range_validation_rejects_witness:
  "res_status (fst (post_wine 2026 500 ''w2'' (new_wine_body\<lparr>b_vintage_year := Some 1700\<rparr>) cellar)) = 400 \<and>
   snd (post_wine 2026 500 ''w2'' (new_wine_body\<lparr>b_vintage_year := Some 1700\<rparr>) cellar) = cellar \<and>
   res_status (fst (put_wine 2026 500 ''w1'' (new_wine_body\<lparr>b_vintage_year := Some 1700\<rparr>) cellar)) = 400 \<and>
   snd (put_wine 2026 500 ''w1'' (new_wine_body\<lparr>b_vintage_year := Some 1700\<rparr>) cellar) = cellar \<and>
   res_status (fst (post_wine 2026 500 ''w2''
      (new_wine_body\<lparr>b_vintage_year := Some 2015, b_rating := Some 90\<rparr>) cellar)) = 201 \<and>
   res_body (fst (post_wine 2026 500 ''w2''
      (new_wine_body\<lparr>b_vintage_year := Some 2015, b_rating := Some 90\<rparr>) cellar)) \<noteq>
        Error_message ''Invalid rating. Must be between 1 and 100''"
proof -
  let ?bad = "new_wine_body\<lparr>b_vintage_year := Some 1700\<rparr>"
  let ?good = "new_wine_body\<lparr>b_vintage_year := Some 2015, b_rating := Some 90\<rparr>"
  have v: "b_vintage_year ?bad = Some 1700" "b_vintage_year ?good = Some 2015"
    "b_rating ?good = Some 90"
    by simp_all
  have f: "findById ''w1'' cellar \<noteq> None"
    by (simp add: findById_def cellar_def cellar_wine_def)
  have c: "res_status (fst (post_wine 2026 500 ''w2'' ?good cellar)) = 201"
    by code_simp
  from range_validation_rejects[of ?bad 2026 500 "''w2''" cellar "''w1''"] v f
  have one: "res_status (fst (post_wine 2026 500 ''w2'' ?bad cellar)) = 400"
    "snd (post_wine 2026 500 ''w2'' ?bad cellar) = cellar"
    "res_status (fst (put_wine 2026 500 ''w1'' ?bad cellar)) = 400"
    "snd (put_wine 2026 500 ''w1'' ?bad cellar) = cellar"
    by simp_all
  from range_validation_rejects[of ?good 2026 500 "''w2''" cellar "''w1''"] v
  have "res_body (fst (post_wine 2026 500 ''w2'' ?good cellar)) \<noteq>
        Error_message ''Invalid rating. Must be between 1 and 100''"
    by simp
  with one c show ?thesis by simp
qed

text \<open>
  C5 as stated fails. A \<open>POST\<close> whose body supplies the rating 0, which is outside [1,100],
  is answered 201 and stores a wine: the check \<open>req.body.rating && ...\<close> skips a 0. A \<open>PUT\<close>
  to an id that is not stored answers 404, not 400, also when the body supplies the
  vintage year 1700.
\<close>

theorem range_validation_counterexample:
  "res_status (fst (post_wine 2026 500 ''w2'' (new_wine_body\<lparr>b_rating := Some 0\<rparr>) cellar)) = 201 \<and>
   length (wines (snd (post_wine 2026 500 ''w2'' (new_wine_body\<lparr>b_rating := Some 0\<rparr>) cellar))) = 2 \<and>
   length (wines cellar) = 1 \<and>
   res_status (fst (put_wine 2026 500 ''w9'' (empty_body\<lparr>b_vintage_year := Some 1700\<rparr>) cellar)) = 404"
  by code_simp

end
